theory Spec2Isabelle
  imports Complex_Main "HOL-Library.Sublist" "HOL-Library.Log_Nat" "HOL-Library.Word"
begin

section \<open>The DMX data model of datamodel.py\<close>

text \<open>
  The module \<^verbatim>\<open>io_scene_valvesource/datamodel.py\<close> keeps a graph of \<^verbatim>\<open>Element\<close>
  objects that refer to each other by Python object reference, owned by \<^verbatim>\<open>DataModel\<close>
  objects. Objects are kept in an explicit store: an element reference is the identity of
  an \<^verbatim>\<open>Element\<close> object, a datamodel reference the identity of a \<^verbatim>\<open>DataModel\<close> object.
  A \<^verbatim>\<open>uuid.UUID\<close> is represented by its 128-bit integer value (\<^verbatim>\<open>int(self.id)\<close>), a
  Python \<^verbatim>\<open>float\<close> by the rational number it denotes.
\<close>

type_synonym eref = nat
type_synonym dmref = nat
type_synonym uuid = nat
type_synonym byte = "8 word"
type_synonym pyfloat = rat

text \<open>The exceptions the modelled code can raise.\<close>

datatype error =
    ValueError
  | TypeError
  | IDCollisionError
  | DmxAttributeError
  | PyAttributeError
  | AssertionError
  | StructError
  | OverflowError
  | IndexError
  | RecursionError
  | UnicodeError
  | HeaderError
  | OSError
  | Hangs

text \<open>
  \<^verbatim>\<open>DmxAttributeError\<close> is the module's own \<^verbatim>\<open>AttributeError(KeyError)\<close>,
  \<^verbatim>\<open>PyAttributeError\<close> the interpreter's; \<^verbatim>\<open>HeaderError\<close> is
  \<^verbatim>\<open>Exception("Could not read DMX header")\<close>; \<^verbatim>\<open>RecursionError\<close> is raised when a
  recursive function runs out of the interpreter's stack depth; \<^verbatim>\<open>Hangs\<close> stands for a
  loop that never exits.
\<close>

datatype vectype = Vector2 | Vector3 | Vector4 | Angle | Quaternion

text \<open>
  The Python values the module handles: the attribute types of \<^verbatim>\<open>_dmxtypes_all\<close> and
  \<^verbatim>\<open>None\<close>, and, last, three kinds of value that are not attribute types
  (raw \<^verbatim>\<open>bytes\<close>, a \<^verbatim>\<open>uuid.UUID\<close> and a generic Python list).
\<close>

datatype pyvalue =
    VNone
  | VElement eref
  | VInt int
  | VFloat pyfloat
  | VBool bool
  | VStr string
  | VBinary "byte list"
  | VTime pyfloat
  | VColor "pyfloat list"
  | VVector vectype "pyfloat list"
  | VMatrix "pyfloat list list"
  | VElementArray "eref list"
  | VIntArray "int list"
  | VFloatArray "pyfloat list"
  | VBoolArray "bool list"
  | VStrArray "string list"
  | VBinaryArray "byte list list"
  | VTimeArray "pyfloat list"
  | VColorArray "pyfloat list list"
  | VVectorArray vectype "pyfloat list list"
  | VMatrixArray
  | VBytes "byte list"
  | VUUID uuid
  | VList

text \<open>
  \<^verbatim>\<open>class Element(collections.OrderedDict)\<close>: the attributes are the dictionary's
  items in insertion order; \<^verbatim>\<open>_datamodels\<close> is a set of DataModel objects, kept as the
  list of its members in iteration order.
\<close>

record element =
  e_name :: string
  e_type :: string
  e_id :: uuid
  e_is_placeholder :: bool
  e_users :: nat
  e_datamodels :: "dmref list"
  e_attrs :: "(string \<times> pyvalue) list"

text \<open>
  \<^verbatim>\<open>class _StringDictionary(list)\<close>: the list of strings and the attributes
  \<^verbatim>\<open>dummy\<close>, \<^verbatim>\<open>indice_size\<close> and \<^verbatim>\<open>length_size\<close> (0 where the constructor
  leaves a size unset).
\<close>

record strdict =
  sd_dummy :: bool
  sd_indice_size :: nat
  sd_length_size :: nat
  sd_strings :: "string list"

datatype outbuf = NoOut | BytesIO "byte list" | StringIO string

text \<open>
  \<^verbatim>\<open>class DataModel\<close>. The attributes \<^verbatim>\<open>out\<close>, \<^verbatim>\<open>encoding\<close>,
  \<^verbatim>\<open>encoding_ver\<close>, \<^verbatim>\<open>_string_dict\<close> and \<^verbatim>\<open>elem_chain\<close> are set by \<^verbatim>\<open>echo\<close>;
  \<^verbatim>\<open>dm_string_dict = None\<close> stands for \<^verbatim>\<open>_string_dict\<close> being unset or
  \<^verbatim>\<open>None\<close>.
\<close>

record datamodel =
  dm_format :: string
  dm_format_ver :: int
  dm_elements :: "eref list"
  dm_root :: "eref option"
  dm_out :: outbuf
  dm_encoding :: string
  dm_encoding_ver :: int
  dm_string_dict :: "strdict option"
  dm_elem_chain :: "eref list"

text \<open>The store; \<^verbatim>\<open>next_elem\<close> is the reference the next Element created will get.\<close>

record heap =
  elems :: "eref \<Rightarrow> element"
  dms :: "dmref \<Rightarrow> datamodel"
  next_elem :: eref

subsection \<open>Element equality and hash\<close>

text \<open>
  \<^verbatim>\<open>def __eq__(self,other): return other and self.id == other.id\<close>.
  The result is used for its truth value. \<^verbatim>\<open>other\<close> is \<^verbatim>\<open>None\<close> or an Element; an
  Element is an OrderedDict, so it is false as a truth value when it has no attribute.
\<close>

definition truthy :: "(eref \<Rightarrow> element) \<Rightarrow> eref option \<Rightarrow> bool" where
  "truthy E other = (case other of None \<Rightarrow> False | Some b \<Rightarrow> e_attrs (E b) \<noteq> [])"

definition Element_eq :: "(eref \<Rightarrow> element) \<Rightarrow> eref \<Rightarrow> eref option \<Rightarrow> bool" where
  "Element_eq E self other =
     (if truthy E other then e_id (E self) = e_id (E (the other)) else False)"

text \<open>\<^verbatim>\<open>def __hash__(self): return int(self.id)\<close>\<close>

definition Element_hash :: "(eref \<Rightarrow> element) \<Rightarrow> eref \<Rightarrow> int" where
  "Element_hash E self = int (e_id (E self))"

text \<open>
  \<^verbatim>\<open>x in xs\<close> and \<^verbatim>\<open>xs.index(x)\<close> on a list of elements compare each item with
  \<^verbatim>\<open>x\<close>: the same object, or \<^verbatim>\<open>item == x\<close>.
\<close>

definition elem_matches :: "(eref \<Rightarrow> element) \<Rightarrow> eref \<Rightarrow> eref \<Rightarrow> bool" where
  "elem_matches E x item = (item = x \<or> Element_eq E item (Some x))"

definition elem_in :: "(eref \<Rightarrow> element) \<Rightarrow> eref \<Rightarrow> eref list \<Rightarrow> bool" where
  "elem_in E x xs = list_ex (elem_matches E x) xs"

fun elem_index :: "(eref \<Rightarrow> element) \<Rightarrow> eref \<Rightarrow> eref list \<Rightarrow> error + nat" where
  "elem_index E x [] = Inl ValueError"
| "elem_index E x (item # xs) =
     (if elem_matches E x item then Inr 0
      else (case elem_index E x xs of Inl err \<Rightarrow> Inl err | Inr i \<Rightarrow> Inr (Suc i)))"

subsection \<open>Attribute assignment and the import of foreign elements\<close>

text \<open>\<^verbatim>\<open>OrderedDict.__setitem__\<close>: a known key keeps its place, a new key goes last.\<close>

fun od_set :: "(string \<times> pyvalue) list \<Rightarrow> string \<Rightarrow> pyvalue \<Rightarrow> (string \<times> pyvalue) list" where
  "od_set [] k v = [(k, v)]"
| "od_set ((k', v') # kvs) k v = (if k' = k then (k, v) # kvs else (k', v') # od_set kvs k v)"

text \<open>\<^verbatim>\<open>t in _dmxtypes_all or t == type(None)\<close>\<close>

fun is_dmx_value :: "pyvalue \<Rightarrow> bool" where
  "is_dmx_value (VBytes _) = False"
| "is_dmx_value (VUUID _) = False"
| "is_dmx_value VList = False"
| "is_dmx_value _ = True"

definition add_to_elements :: "dmref \<Rightarrow> eref \<Rightarrow> heap \<Rightarrow> heap" where
  "add_to_elements dm e h =
     h\<lparr>dms := (dms h)(dm := (dms h dm)\<lparr>dm_elements := dm_elements (dms h dm) @ [e]\<rparr>)\<rparr>"

definition add_datamodel :: "eref \<Rightarrow> dmref \<Rightarrow> heap \<Rightarrow> heap" where
  "add_datamodel e dm h =
     h\<lparr>elems := (elems h)(e := (elems h e)\<lparr>e_datamodels :=
        (if dm \<in> set (e_datamodels (elems h e)) then e_datamodels (elems h e)
         else e_datamodels (elems h e) @ [dm])\<rparr>)\<rparr>"

text \<open>
  \<^verbatim>\<open>import_element(elem)\<close>, the closure of \<^verbatim>\<open>Element.__setitem__\<close> (lines 328-342);
  \<^verbatim>\<open>self\<close> is the element being assigned to. The first argument is the stack depth
  left: each call of \<^verbatim>\<open>import_element\<close> takes one frame. The loops over
  \<^verbatim>\<open>self._datamodels\<close>, over \<^verbatim>\<open>elem.values()\<close> and over an element array are
  \<^verbatim>\<open>import_dms\<close>, \<^verbatim>\<open>import_values\<close> and \<^verbatim>\<open>import_array\<close>. The result is the
  exception raised, if any, and the store as the call leaves it.
\<close>

function (sequential) import_element :: "nat \<Rightarrow> eref \<Rightarrow> eref \<Rightarrow> heap \<Rightarrow> error option \<times> heap"
  and import_dms :: "nat \<Rightarrow> eref \<Rightarrow> eref \<Rightarrow> dmref list \<Rightarrow> heap \<Rightarrow> error option \<times> heap"
  and import_values :: "nat \<Rightarrow> eref \<Rightarrow> pyvalue list \<Rightarrow> heap \<Rightarrow> error option \<times> heap"
  and import_array :: "nat \<Rightarrow> eref \<Rightarrow> eref list \<Rightarrow> heap \<Rightarrow> error option \<times> heap"
where
  "import_element 0 self elem h = (Some RecursionError, h)"
| "import_element (Suc n) self elem h = import_dms n self elem (e_datamodels (elems h self)) h"
| "import_dms n self elem [] h = (None, h)"
| "import_dms n self elem (dm # rest) h =
     (if dm \<in> set (e_datamodels (elems h elem)) then import_dms n self elem rest h
      else if list_ex (\<lambda>dm_e. e_id (elems h dm_e) = e_id (elems h elem)) (dm_elements (dms h dm))
      then (Some IDCollisionError, h)
      else (case import_values n self (map snd (e_attrs (elems h elem)))
                   (add_datamodel elem dm (add_to_elements dm elem h)) of
              (Some err, h') \<Rightarrow> (Some err, h')
            | (None, h') \<Rightarrow> import_dms n self elem rest h'))"
| "import_values n self [] h = (None, h)"
| "import_values n self (v # vs) h =
     (case (case v of
              VElement a \<Rightarrow> import_element n self a h
            | VElementArray arr \<Rightarrow> import_array n self arr h
            | _ \<Rightarrow> (None, h)) of
        (Some err, h') \<Rightarrow> (Some err, h')
      | (None, h') \<Rightarrow> import_values n self vs h')"
| "import_array n self [] h = (None, h)"
| "import_array n self (arr_elem # arr) h =
     (case import_element n self arr_elem h of
        (Some err, h') \<Rightarrow> (Some err, h')
      | (None, h') \<Rightarrow> import_array n self arr h')"
  by pat_completeness auto
termination
  by (relation "measures
       [\<lambda>x. case x of Inl (Inl (n, _)) \<Rightarrow> n | Inl (Inr (n, _)) \<Rightarrow> n
                       | Inr (Inl (n, _)) \<Rightarrow> n | Inr (Inr (n, _)) \<Rightarrow> n,
        \<lambda>x. case x of Inl (Inl _) \<Rightarrow> 0 | Inl (Inr _) \<Rightarrow> 3
                       | Inr (Inl _) \<Rightarrow> 2 | Inr (Inr _) \<Rightarrow> (1::nat),
        \<lambda>x. case x of Inl (Inl _) \<Rightarrow> 0 | Inl (Inr (_, _, _, l, _)) \<Rightarrow> length l
                       | Inr (Inl (_, _, l, _)) \<Rightarrow> length l | Inr (Inr (_, _, l, _)) \<Rightarrow> length l]")
     auto

text \<open>
  \<^verbatim>\<open>Element.__setitem__(self,key,item)\<close> (lines 325-358). The key is a string by its
  type. The assignment itself is \<^verbatim>\<open>super().__setitem__(key,item)\<close>, reached only when
  the import raised nothing.
\<close>

definition Element_setitem :: "nat \<Rightarrow> eref \<Rightarrow> string \<Rightarrow> pyvalue \<Rightarrow> heap \<Rightarrow> error option \<times> heap" where
  "Element_setitem n self key item h =
     (if is_dmx_value item then
        (case (case item of
                 VElement e \<Rightarrow> import_element n self e h
               | VElementArray arr \<Rightarrow> import_array n self arr h
               | _ \<Rightarrow> (None, h)) of
           (Some err, h') \<Rightarrow> (Some err, h')
         | (None, h') \<Rightarrow>
             (None, h'\<lparr>elems := (elems h')(self := (elems h' self)
                        \<lparr>e_attrs := od_set (e_attrs (elems h' self)) key item\<rparr>)\<rparr>))
      else (Some ValueError, h))"

text \<open>
  \<^verbatim>\<open>Element.__init__\<close> with a \<^verbatim>\<open>uuid.UUID\<close> as id, and \<^verbatim>\<open>DataModel.add_element\<close>
  (lines 543-552). The body of the \<^verbatim>\<open>try\<close> is \<^verbatim>\<open>dupe_check\<close>; whatever it raises is caught by
  the bare \<^verbatim>\<open>except: pass\<close>.
\<close>

definition Element_init :: "dmref \<Rightarrow> string \<Rightarrow> string \<Rightarrow> uuid \<Rightarrow> bool \<Rightarrow> element" where
  "Element_init datamodel name elemtype uid is_placeholder =
     \<lparr>e_name = name, e_type = elemtype, e_id = uid, e_is_placeholder = is_placeholder,
      e_users = 0, e_datamodels = [datamodel], e_attrs = []\<rparr>"

definition dupe_check :: "dmref \<Rightarrow> eref \<Rightarrow> heap \<Rightarrow> error option" where
  "dupe_check dm elem h =
     (case elem_index (elems h) elem (dm_elements (dms h dm)) of
        Inl err \<Rightarrow> Some err
      | Inr dupe_elem \<Rightarrow>
          (if \<not> e_is_placeholder (elems h (dm_elements (dms h dm) ! dupe_elem))
           then Some ValueError else None))"

definition add_element :: "dmref \<Rightarrow> string \<Rightarrow> string \<Rightarrow> uuid \<Rightarrow> bool \<Rightarrow> heap \<Rightarrow> eref \<times> heap" where
  "add_element dm name elemtype uid is_placeholder h =
     (let new = next_elem h;
          h1 = h\<lparr>elems := (elems h)(new := Element_init dm name elemtype uid is_placeholder),
                 next_elem := Suc new\<rparr>;
          caught = dupe_check dm new h1;
          h2 = add_to_elements dm new h1;
          h3 = (if length (dm_elements (dms h2 dm)) = 1
                then h2\<lparr>dms := (dms h2)(dm := (dms h2 dm)\<lparr>dm_root := Some new\<rparr>)\<rparr> else h2)
      in (new, h3))"

subsection \<open>Supported encodings\<close>

text \<open>\<^verbatim>\<open>list_support\<close> and \<^verbatim>\<open>check_support\<close> (lines 36-44).\<close>

definition list_support :: "(string \<times> int list) list" where
  "list_support = [(''binary'', [1, 2, 3, 4, 5]), (''keyvalues2'', [1]), (''binary_proto'', [2])]"

definition check_support :: "string \<Rightarrow> int \<Rightarrow> error option" where
  "check_support encoding encoding_ver =
     (case map_of list_support encoding of
        None \<Rightarrow> Some ValueError
      | Some versions \<Rightarrow>
          if versions = [] then Some ValueError
          else if encoding_ver \<notin> set versions then Some ValueError
          else None)"

subsection \<open>Bytes, struct and text\<close>

text \<open>
  \<^verbatim>\<open>struct.pack\<close> and \<^verbatim>\<open>struct.unpack\<close> for the formats \<^verbatim>\<open>"i"\<close> (int32),
  \<^verbatim>\<open>"H"\<close> (uint16), \<^verbatim>\<open>"b"\<close> (int8) and \<^verbatim>\<open>"B"\<close> (uint8) in the native byte order
  of a little-endian machine; a value out of range raises \<^verbatim>\<open>struct.error\<close>.
\<close>

fun le_bytes :: "nat \<Rightarrow> nat \<Rightarrow> byte list" where
  "le_bytes 0 v = []"
| "le_bytes (Suc k) v = of_nat (v mod 256) # le_bytes k (v div 256)"

fun le_nat :: "byte list \<Rightarrow> nat" where
  "le_nat [] = 0"
| "le_nat (b # bs) = unat b + 256 * le_nat bs"

definition pack_i :: "int \<Rightarrow> error + byte list" where
  "pack_i v = (if - (2 ^ 31) \<le> v \<and> v < 2 ^ 31 then Inr (le_bytes 4 (nat (v mod 2 ^ 32)))
               else Inl StructError)"

definition pack_H :: "int \<Rightarrow> error + byte list" where
  "pack_H v = (if 0 \<le> v \<and> v < 2 ^ 16 then Inr (le_bytes 2 (nat v)) else Inl StructError)"

definition pack_b :: "int \<Rightarrow> error + byte list" where
  "pack_b v = (if - 128 \<le> v \<and> v < 128 then Inr (le_bytes 1 (nat (v mod 256)))
               else Inl StructError)"

definition unpack_i :: "byte list \<Rightarrow> int" where
  "unpack_i bs = (if le_nat bs < 2 ^ 31 then int (le_nat bs) else int (le_nat bs) - 2 ^ 32)"

text \<open>
  A binary input file is the list of its unread bytes. \<^verbatim>\<open>file.read(n)\<close> returns at
  most \<^verbatim>\<open>n\<close> bytes; \<^verbatim>\<open>unpack\<close> raises \<^verbatim>\<open>struct.error\<close> on a short buffer.
\<close>

definition file_read :: "nat \<Rightarrow> byte list \<Rightarrow> byte list \<times> byte list" where
  "file_read n file = (take n file, drop n file)"

definition get_int :: "byte list \<Rightarrow> error + int \<times> byte list" where
  "get_int file = (if length file < 4 then Inl StructError
                   else Inr (unpack_i (take 4 file), drop 4 file))"

definition get_short :: "byte list \<Rightarrow> error + int \<times> byte list" where
  "get_short file = (if length file < 2 then Inl StructError
                     else Inr (int (le_nat (take 2 file)), drop 2 file))"

definition get_byte :: "byte list \<Rightarrow> error + int \<times> byte list" where
  "get_byte file = (if length file < 1 then Inl StructError
                    else Inr (int (le_nat (take 1 file)), drop 1 file))"

definition get_bool :: "byte list \<Rightarrow> bool \<times> byte list" where
  "get_bool file = (take 1 file \<noteq> [0], drop 1 file)"

text \<open>
  \<^verbatim>\<open>get_str\<close> (lines 84-89). At the end of the file \<^verbatim>\<open>read(1)\<close> returns the empty
  bytes object, which is not \<^verbatim>\<open>b'\x00'\<close> and decodes to the empty string: the loop
  never exits. A byte above 127 does not decode as ASCII.
\<close>

fun get_str :: "byte list \<Rightarrow> error + string \<times> byte list" where
  "get_str [] = Inl Hangs"
| "get_str (cur # file) =
     (if cur = 0 then Inr ([], file)
      else if 128 \<le> unat cur then Inl UnicodeError
      else (case get_str file of
              Inl err \<Rightarrow> Inl err
            | Inr (out, file') \<Rightarrow> Inr (char_of (unat cur) # out, file')))"

text \<open>\<^verbatim>\<open>_encode_binary_string\<close> (lines 46-47): \<^verbatim>\<open>bytes(string,'ASCII') + bytes(1)\<close>.\<close>

definition ascii :: "string \<Rightarrow> bool" where
  "ascii s = list_all (\<lambda>c. (of_char c :: nat) < 128) s"

definition str_bytes :: "string \<Rightarrow> byte list" where
  "str_bytes s = map (\<lambda>c. of_nat (of_char c)) s"

definition encode_binary_string :: "string \<Rightarrow> error + byte list" where
  "encode_binary_string s = (if ascii s then Inr (str_bytes s @ [0]) else Inl UnicodeError)"

text \<open>\<^verbatim>\<open>str\<close> of an int, and of a UUID (32 hex digits in groups 8-4-4-4-12).\<close>

fun digits_of :: "nat \<Rightarrow> nat \<Rightarrow> nat \<Rightarrow> string" where
  "digits_of base 0 v = []"
| "digits_of base (Suc k) v =
     digits_of base k (v div base) @ [(''0123456789abcdef'') ! (v mod base)]"

fun num_digits :: "nat \<Rightarrow> nat \<Rightarrow> nat" where
  "num_digits 0 v = 1"
| "num_digits (Suc k) v = (if v < 10 then 1 else Suc (num_digits k (v div 10)))"

definition str_nat :: "nat \<Rightarrow> string" where
  "str_nat v = digits_of 10 (num_digits v v) v"

definition str_int :: "int \<Rightarrow> string" where
  "str_int v = (if v < 0 then CHR ''-'' # str_nat (nat (- v)) else str_nat (nat v))"

definition uuid_str :: "uuid \<Rightarrow> string" where
  "uuid_str u =
     (let hex = digits_of 16 32 (u mod 2 ^ 128)
      in take 8 hex @ ''-'' @ take 4 (drop 8 hex) @ ''-'' @ take 4 (drop 12 hex) @ ''-''
         @ take 4 (drop 16 hex) @ ''-'' @ drop 20 hex)"

text \<open>\<^verbatim>\<open>UUID.bytes\<close>: the 16 bytes of the integer, most significant first.\<close>

definition uuid_bytes :: "uuid \<Rightarrow> byte list" where
  "uuid_bytes u = rev (le_bytes 16 (u mod 2 ^ 128))"


subsection \<open>The header of a file\<close>

text \<open>
  The two header patterns (lines 26-30) are sequences of literal text and of the groups
  \<^verbatim>\<open>(\S+)\<close> and \<^verbatim>\<open>([0-9]+)\<close>. \<^verbatim>\<open>rmatch\<close> matches a pattern at the start of a
  string as a backtracking matcher does, a group taking the longest run first; it
  returns the groups and the text left after the match.
\<close>

datatype ritem = Lit string | NonSpace | Digits

definition is_space :: "char \<Rightarrow> bool" where
  "is_space c = ((of_char c :: nat) \<in> {9, 10, 11, 12, 13, 28, 29, 30, 31, 32})"

definition is_digit :: "char \<Rightarrow> bool" where
  "is_digit c = (48 \<le> (of_char c :: nat) \<and> (of_char c :: nat) \<le> 57)"

fun item_class :: "ritem \<Rightarrow> char \<Rightarrow> bool" where
  "item_class NonSpace c = (\<not> is_space c)"
| "item_class Digits c = is_digit c"
| "item_class (Lit l) c = False"

function (sequential) rmatch :: "ritem list \<Rightarrow> string \<Rightarrow> (string list \<times> string) option"
  and rgroup :: "ritem list \<Rightarrow> nat \<Rightarrow> string \<Rightarrow> (string list \<times> string) option"
where
  "rmatch [] s = Some ([], s)"
| "rmatch (Lit l # r) s =
     (if take (length l) s = l then rmatch r (drop (length l) s) else None)"
| "rmatch (g # r) s = rgroup r (length (takeWhile (item_class g) s)) s"
| "rgroup r 0 s = None"
| "rgroup r (Suc k) s =
     (case rmatch r (drop (Suc k) s) of
        Some (groups, rest) \<Rightarrow> Some (take (Suc k) s # groups, rest)
      | None \<Rightarrow> rgroup r k s)"
  by pat_completeness auto
termination
  by (relation "measures
       [\<lambda>x. case x of Inl (r, _) \<Rightarrow> 2 * length r | Inr (r, _) \<Rightarrow> 2 * length r + 1,
        \<lambda>x. case x of Inl _ \<Rightarrow> 0 | Inr (_, k, _) \<Rightarrow> k]")
     auto

text \<open>
  \<^verbatim>\<open>re.findall\<close>: the matches from left to right, each search starting where the
  last match ended (\<^verbatim>\<open>skip\<close> counts the characters of the last match still to pass).
\<close>

fun findall_from :: "ritem list \<Rightarrow> nat \<Rightarrow> string \<Rightarrow> string list list" where
  "findall_from r skip [] = []"
| "findall_from r skip (c # s) =
     (if 0 < skip then findall_from r (skip - 1) s
      else (case rmatch r (c # s) of
              Some (groups, rest) \<Rightarrow> groups # findall_from r (length s - length rest) s
            | None \<Rightarrow> findall_from r 0 s))"

definition findall :: "ritem list \<Rightarrow> string \<Rightarrow> string list list" where
  "findall r s = findall_from r 0 s"

definition header_format_regex :: "ritem list" where
  "header_format_regex = [Lit ''<!-- dmx encoding '', NonSpace, Lit '' '', Digits,
                          Lit '' format '', NonSpace, Lit '' '', Digits, Lit '' -->'']"

definition header_proto2_regex :: "ritem list" where
  "header_proto2_regex = [Lit ''<!-- DMXVersion binary_v'', Digits, Lit '' -->'']"

text \<open>\<^verbatim>\<open>int\<close> of a string of decimal digits.\<close>

definition int_of_digits :: "string \<Rightarrow> int" where
  "int_of_digits s = int (foldl (\<lambda>acc c. 10 * acc + (of_char c - 48)) 0 s)"

text \<open>
  The loop of lines 717-720 on a file opened in binary mode: \<^verbatim>\<open>get_char\<close> until the
  header ends with \<^verbatim>\<open>>\<close>. At the end of the file \<^verbatim>\<open>unpack\<close> raises, a byte above
  127 does not decode (it has been read by then); both end in
  \<^verbatim>\<open>Exception("Could not read DMX header")\<close>. The second component is what is left
  unread in the file.
\<close>

fun read_header :: "byte list \<Rightarrow> (error + string) \<times> byte list" where
  "read_header [] = (Inl HeaderError, [])"
| "read_header (b # file) =
     (if 128 \<le> unat b then (Inl HeaderError, file)
      else if char_of (unat b) = CHR ''>'' then (Inr [CHR ''>''], file)
      else (case read_header file of
              (Inl err, file') \<Rightarrow> (Inl err, file')
            | (Inr header, file') \<Rightarrow> (Inr (char_of (unat b) # header), file')))"

text \<open>
  Lines 722-736: the header's encoding, encoding version, format and format version.
  The second pattern has one group, so \<^verbatim>\<open>findall\<close> returns strings and
  \<^verbatim>\<open>len(matches[0])\<close> is the number of digits of the version.
\<close>

definition parse_header :: "string \<Rightarrow> error + string \<times> int \<times> string \<times> int" where
  "parse_header header =
     (case findall header_format_regex header of
        [[encoding, encoding_ver, format, format_ver]] \<Rightarrow>
          Inr (encoding, int_of_digits encoding_ver, format, int_of_digits format_ver)
      | _ \<Rightarrow>
          (case findall header_proto2_regex header of
             [[ver]] \<Rightarrow>
               if length ver = 1 then Inr (''binary_proto'', int_of_digits (take 1 ver),
                                          ''undefined_format'', 0)
               else Inl HeaderError
           | _ \<Rightarrow> Inl HeaderError))"

text \<open>
  \<^verbatim>\<open>load\<close> up to \<^verbatim>\<open>check_support\<close> (lines 713-740), on a file opened in binary mode:
  the header's fields or the exception raised, and the unread rest of the file.
\<close>

definition load_prologue :: "byte list \<Rightarrow> (error + string \<times> int \<times> string \<times> int) \<times> byte list" where
  "load_prologue in_file =
     (case read_header in_file of
        (Inl err, file') \<Rightarrow> (Inl HeaderError, file')
      | (Inr header, file') \<Rightarrow>
          (case parse_header header of
             Inl err \<Rightarrow> (Inl HeaderError, file')
           | Inr (encoding, encoding_ver, format, format_ver) \<Rightarrow>
               (case check_support encoding encoding_ver of
                  Some err \<Rightarrow> (Inl err, file')
                | None \<Rightarrow> (Inr (encoding, encoding_ver, format, format_ver), file'))))"

subsection \<open>Attribute types and their ids\<close>

text \<open>
  Functions of the Python library whose results the properties below do not depend on:
  \<^verbatim>\<open>struct.pack("f", x)\<close> and \<^verbatim>\<open>struct.unpack("f", b)\<close>, \<^verbatim>\<open>"{:.10f}".format(x)\<close>,
  \<^verbatim>\<open>str\<close> of a float, the order in which a \<^verbatim>\<open>set\<close> of strings is enumerated (given the
  strings in the order they were added), and \<^verbatim>\<open>uuid.UUID(hex=s)\<close>.
\<close>

record pylib =
  pack_f :: "pyfloat \<Rightarrow> error + byte list"
  unpack_f :: "byte list \<Rightarrow> pyfloat"
  format_10f :: "pyfloat \<Rightarrow> string"
  float_str :: "pyfloat \<Rightarrow> string"
  set_order :: "string list \<Rightarrow> string list"
  uuid_of_hex :: "string \<Rightarrow> error + uuid"

datatype dmxtype =
  DElement | DInt | DFloat | DBool | DStr | DBinary | DTime | DColor | DVector vectype | DMatrix

datatype pytype = Scalar dmxtype | ArrayOf dmxtype | NoneType | BytesType | UUIDType | ListType

fun type_of :: "pyvalue \<Rightarrow> pytype" where
  "type_of VNone = NoneType"
| "type_of (VElement _) = Scalar DElement"
| "type_of (VInt _) = Scalar DInt"
| "type_of (VFloat _) = Scalar DFloat"
| "type_of (VBool _) = Scalar DBool"
| "type_of (VStr _) = Scalar DStr"
| "type_of (VBinary _) = Scalar DBinary"
| "type_of (VTime _) = Scalar DTime"
| "type_of (VColor _) = Scalar DColor"
| "type_of (VVector vt _) = Scalar (DVector vt)"
| "type_of (VMatrix _) = Scalar DMatrix"
| "type_of (VElementArray _) = ArrayOf DElement"
| "type_of (VIntArray _) = ArrayOf DInt"
| "type_of (VFloatArray _) = ArrayOf DFloat"
| "type_of (VBoolArray _) = ArrayOf DBool"
| "type_of (VStrArray _) = ArrayOf DStr"
| "type_of (VBinaryArray _) = ArrayOf DBinary"
| "type_of (VTimeArray _) = ArrayOf DTime"
| "type_of (VColorArray _) = ArrayOf DColor"
| "type_of (VVectorArray vt _) = ArrayOf (DVector vt)"
| "type_of VMatrixArray = ArrayOf DMatrix"
| "type_of (VBytes _) = BytesType"
| "type_of (VUUID _) = UUIDType"
| "type_of VList = ListType"

text \<open>\<^verbatim>\<open>_dmxtypes\<close>, \<^verbatim>\<open>_dmxtypes_str\<close>, \<^verbatim>\<open>attr_list_v1\<close> and \<^verbatim>\<open>attr_list_v2\<close>
  (lines 417-429). An entry of an attribute list that is no type (\<^verbatim>\<open>None\<close>,
  \<^verbatim>\<open>"ObjectID"\<close>, \<^verbatim>\<open>"_ObjectIDArray"\<close>) is \<^verbatim>\<open>None\<close>.\<close>

definition dmxtypes :: "dmxtype list" where
  "dmxtypes = [DElement, DInt, DFloat, DBool, DStr, DBinary, DTime, DColor, DVector Vector2,
               DVector Vector3, DVector Vector4, DVector Angle, DVector Quaternion, DMatrix]"

definition dmxtypes_str :: "string list" where
  "dmxtypes_str = [''element'', ''int'', ''float'', ''bool'', ''string'', ''binary'', ''time'',
                   ''color'', ''vector2'', ''vector3'', ''vector4'', ''angle'', ''quaternion'',
                   ''matrix'']"

definition attr_list_v1 :: "pytype option list" where
  "attr_list_v1 =
     [None, Some (Scalar DElement), Some (Scalar DInt), Some (Scalar DFloat), Some (Scalar DBool),
      Some (Scalar DStr), Some (Scalar DBinary), None, Some (Scalar DColor),
      Some (Scalar (DVector Vector2)), Some (Scalar (DVector Vector3)),
      Some (Scalar (DVector Vector4)), Some (Scalar (DVector Angle)),
      Some (Scalar (DVector Quaternion)), Some (Scalar DMatrix),
      Some (ArrayOf DElement), Some (ArrayOf DInt), Some (ArrayOf DFloat), Some (ArrayOf DBool),
      Some (ArrayOf DStr), Some (ArrayOf DBinary), None, Some (ArrayOf DColor),
      Some (ArrayOf (DVector Vector2)), Some (ArrayOf (DVector Vector3)),
      Some (ArrayOf (DVector Vector4)), Some (ArrayOf (DVector Angle)),
      Some (ArrayOf (DVector Quaternion)), Some (ArrayOf DMatrix)]"

definition attr_list_v2 :: "pytype option list" where
  "attr_list_v2 =
     [None, Some (Scalar DElement), Some (Scalar DInt), Some (Scalar DFloat), Some (Scalar DBool),
      Some (Scalar DStr), Some (Scalar DBinary), Some (Scalar DTime), Some (Scalar DColor),
      Some (Scalar (DVector Vector2)), Some (Scalar (DVector Vector3)),
      Some (Scalar (DVector Vector4)), Some (Scalar (DVector Angle)),
      Some (Scalar (DVector Quaternion)), Some (Scalar DMatrix),
      Some (ArrayOf DElement), Some (ArrayOf DInt), Some (ArrayOf DFloat), Some (ArrayOf DBool),
      Some (ArrayOf DStr), Some (ArrayOf DBinary), Some (ArrayOf DTime), Some (ArrayOf DColor),
      Some (ArrayOf (DVector Vector2)), Some (ArrayOf (DVector Vector3)),
      Some (ArrayOf (DVector Vector4)), Some (ArrayOf (DVector Angle)),
      Some (ArrayOf (DVector Quaternion)), Some (ArrayOf DMatrix)]"

text \<open>\<^verbatim>\<open>list.index\<close> on values compared by plain equality.\<close>

fun index_of :: "'a \<Rightarrow> 'a list \<Rightarrow> nat option" where
  "index_of x [] = None"
| "index_of x (y # ys) = (if y = x then Some 0 else map_option Suc (index_of x ys))"

text \<open>
  \<^verbatim>\<open>_get_dmx_type_id\<close> (lines 451-463); the result is \<^verbatim>\<open>None\<close> where the function
  falls off its end.
\<close>

definition get_dmx_type_id :: "string \<Rightarrow> int \<Rightarrow> pytype \<Rightarrow> error + nat option" where
  "get_dmx_type_id encoding version t0 =
     (let t = (if t0 = NoneType then Scalar DElement else t0) in
      if encoding = ''keyvalues2'' then Inl ValueError
      else if encoding = ''binary'' then
        (if version \<in> {1, 2} then
           (case index_of (Some t) attr_list_v1 of None \<Rightarrow> Inl ValueError | Some i \<Rightarrow> Inr (Some i))
         else if version \<in> {3, 4, 5} then
           (case index_of (Some t) attr_list_v2 of None \<Rightarrow> Inl ValueError | Some i \<Rightarrow> Inr (Some i))
         else Inr None)
      else if encoding = ''binary_proto'' then
        (case index_of (Some t) attr_list_v1 of None \<Rightarrow> Inl ValueError | Some i \<Rightarrow> Inr (Some i))
      else Inr None)"

subsection \<open>The string dictionary\<close>

text \<open>Loops and sequencing of actions that may raise.\<close>

fun foreach :: "('a \<Rightarrow> 's \<Rightarrow> error option \<times> 's) \<Rightarrow> 'a list \<Rightarrow> 's \<Rightarrow> error option \<times> 's" where
  "foreach f [] s = (None, s)"
| "foreach f (x # xs) s =
     (case f x s of (Some err, s') \<Rightarrow> (Some err, s') | (None, s') \<Rightarrow> foreach f xs s')"

definition and_then ::
  "('s \<Rightarrow> error option \<times> 's) \<Rightarrow> ('s \<Rightarrow> error option \<times> 's) \<Rightarrow> 's \<Rightarrow> error option \<times> 's" where
  "and_then f g s = (case f s of (Some err, s') \<Rightarrow> (Some err, s') | (None, s') \<Rightarrow> g s')"

text \<open>
  \<^verbatim>\<open>_StringDictionary.__init__\<close> (lines 468-481): the sizes and \<^verbatim>\<open>dummy\<close> for an
  encoding and version (\<^verbatim>\<open>intsize\<close> is 4, \<^verbatim>\<open>shortsize\<close> is 2).
\<close>

definition StringDictionary_new :: "string \<Rightarrow> int \<Rightarrow> strdict" where
  "StringDictionary_new encoding encoding_ver =
     (if encoding = ''binary'' then
        (if encoding_ver = 4 then
           \<lparr>sd_dummy = False, sd_indice_size = 2, sd_length_size = 4, sd_strings = []\<rparr>
         else if encoding_ver \<in> {3, 2} then
           \<lparr>sd_dummy = False, sd_indice_size = 2, sd_length_size = 2, sd_strings = []\<rparr>
         else if encoding_ver = 1 then
           \<lparr>sd_dummy = True, sd_indice_size = 4, sd_length_size = 4, sd_strings = []\<rparr>
         else \<lparr>sd_dummy = False, sd_indice_size = 4, sd_length_size = 4, sd_strings = []\<rparr>)
      else if encoding = ''binary_proto'' then
        \<lparr>sd_dummy = True, sd_indice_size = 0, sd_length_size = 0, sd_strings = []\<rparr>
      else \<lparr>sd_dummy = False, sd_indice_size = 0, sd_length_size = 0, sd_strings = []\<rparr>)"

text \<open>
  \<^verbatim>\<open>process_element\<close> (lines 491-503) collects the strings of the dictionary; the
  state is the list \<^verbatim>\<open>checked\<close> and the strings added to \<^verbatim>\<open>string_set\<close>, in the order
  they were added. The first argument bounds the depth of the recursion.
\<close>

definition process_attr ::
  "(eref \<Rightarrow> element) \<Rightarrow> (eref \<Rightarrow> eref list \<times> string list \<Rightarrow> error option \<times> eref list \<times> string list)
     \<Rightarrow> string \<times> pyvalue \<Rightarrow> eref list \<times> string list \<Rightarrow> error option \<times> eref list \<times> string list" where
  "process_attr E rec na st =
     (case na of (name, attr) \<Rightarrow>
        (case st of (checked, string_set) \<Rightarrow>
           (case attr of
              VStr v \<Rightarrow> (None, checked, string_set @ [name, v])
            | VElement a \<Rightarrow>
                (if elem_in E a checked
                 then (None, checked, string_set @ [name])
                 else rec a (checked, string_set @ [name]))
            | VElementArray arr \<Rightarrow>
                foreach (\<lambda>i st'. if elem_in E i (fst st')
                                  then (None, st') else rec i st')
                  arr (checked, string_set @ [name])
            | _ \<Rightarrow> (None, checked, string_set @ [name]))))"

primrec process_element ::
  "nat \<Rightarrow> (eref \<Rightarrow> element) \<Rightarrow> eref \<Rightarrow> eref list \<times> string list \<Rightarrow> error option \<times> eref list \<times> string list" where
  "process_element 0 E elem st = (Some RecursionError, st)"
| "process_element (Suc n) E elem st =
     foreach (process_attr E (process_element n E)) (e_attrs (E elem))
       (fst st @ [elem], snd st @ [e_name (E elem), e_type (E elem)])"

text \<open>
  \<^verbatim>\<open>_StringDictionary(encoding,encoding_ver,out_datamodel=dm)\<close> (lines 488-505):
  the dictionary of the strings reachable from the root, in the order the set
  enumerates them.
\<close>

definition StringDictionary_collect ::
  "pylib \<Rightarrow> nat \<Rightarrow> (eref \<Rightarrow> element) \<Rightarrow> string \<Rightarrow> int \<Rightarrow> eref option \<Rightarrow> error + strdict" where
  "StringDictionary_collect L n E encoding encoding_ver root_elem =
     (let d = StringDictionary_new encoding encoding_ver in
      if sd_dummy d then Inr d
      else (case root_elem of
              None \<Rightarrow> Inl PyAttributeError
            | Some r \<Rightarrow>
                (case process_element n E r ([], []) of
                   (Some err, _) \<Rightarrow> Inl err
                 | (None, (checked, string_set)) \<Rightarrow>
                     Inr (d\<lparr>sd_strings := set_order L string_set\<rparr>))))"

subsection \<open>Writing the binary encodings\<close>

text \<open>\<^verbatim>\<open>self.out.write(b)\<close> on the \<^verbatim>\<open>io.BytesIO\<close> of a binary encoding.\<close>

definition out_write :: "byte list \<Rightarrow> datamodel \<Rightarrow> error option \<times> datamodel" where
  "out_write bs self =
     (case dm_out self of
        BytesIO b \<Rightarrow> (None, self\<lparr>dm_out := BytesIO (b @ bs)\<rparr>)
      | StringIO t \<Rightarrow> (Some TypeError, self)
      | NoOut \<Rightarrow> (Some PyAttributeError, self))"

definition out_write_packed :: "error + byte list \<Rightarrow> datamodel \<Rightarrow> error option \<times> datamodel" where
  "out_write_packed p self = (case p of Inl err \<Rightarrow> (Some err, self) | Inr bs \<Rightarrow> out_write bs self)"

text \<open>\<^verbatim>\<open>write_string\<close> and \<^verbatim>\<open>write_dictionary\<close> (lines 513-524).\<close>

definition write_string :: "strdict \<Rightarrow> string \<Rightarrow> datamodel \<Rightarrow> error option \<times> datamodel" where
  "write_string d string self =
     (if sd_dummy d then out_write_packed (encode_binary_string string) self
      else (case index_of string (sd_strings d) of
              None \<Rightarrow> (Some AssertionError, self)
            | Some i \<Rightarrow>
                out_write_packed ((if sd_indice_size d = 2 then pack_H else pack_i) (int i)) self))"

definition write_dictionary :: "strdict \<Rightarrow> datamodel \<Rightarrow> error option \<times> datamodel" where
  "write_dictionary d self =
     (if \<not> sd_dummy d then
        and_then
          (out_write_packed
             ((if sd_length_size d = 2 then pack_H else pack_i) (int (length (sd_strings d)))))
          (foreach (\<lambda>string. out_write_packed (encode_binary_string string)) (sd_strings d))
          self
      else (None, self))"

text \<open>
  Python floats: \<^verbatim>\<open>double x\<close> is the binary64 number nearest to the rational \<^verbatim>\<open>x\<close>
  (ties to even), for a result in the range of normal and subnormal numbers;
  \<^verbatim>\<open>ilog2 x\<close> is the integer part of the binary logarithm of a positive \<^verbatim>\<open>x\<close>.
\<close>

definition pow2 :: "int \<Rightarrow> rat" where
  "pow2 e = (if 0 \<le> e then 2 ^ nat e else 1 / 2 ^ nat (- e))"

definition ilog2 :: "rat \<Rightarrow> int" where
  "ilog2 x = (if 1 \<le> x then bitlen \<lfloor>x\<rfloor> - 1 else - bitlen (\<lceil>1 / x\<rceil> - 1))"

definition round_half_even :: "rat \<Rightarrow> int" where
  "round_half_even x =
     (let f = \<lfloor>x\<rfloor>; d = x - of_int f
      in if d < 1 / 2 then f else if 1 / 2 < d then f + 1 else if even f then f else f + 1)"

definition double :: "rat \<Rightarrow> pyfloat" where
  "double x =
     (if x = 0 then 0
      else (let u = pow2 (max (ilog2 \<bar>x\<bar> - 52) (- 1074))
            in of_int (round_half_even (x / u)) * u))"

text \<open>
  \<^verbatim>\<open>class Time(float)\<close> (lines 250-256). \<^verbatim>\<open>tobytes\<close> is
  \<^verbatim>\<open>struct.pack("i",int(self * 10000))\<close>: a float product, truncated towards zero;
  \<^verbatim>\<open>from_int\<close> is \<^verbatim>\<open>Time(int_value / 10000)\<close>, the quotient of two ints rounded to
  a float.
\<close>

definition py_trunc :: "rat \<Rightarrow> int" where
  "py_trunc x = (if 0 \<le> x then \<lfloor>x\<rfloor> else \<lceil>x\<rceil>)"

definition Time_tobytes :: "pyfloat \<Rightarrow> error + byte list" where
  "Time_tobytes self = pack_i (py_trunc (double (self * 10000)))"

definition Time_from_int :: "int \<Rightarrow> pyfloat" where
  "Time_from_int int_value = double (of_int int_value / 10000)"

text \<open>\<^verbatim>\<open>_Vector.tobytes\<close> (lines 179-182).\<close>

fun Vector_tobytes :: "pylib \<Rightarrow> pyfloat list \<Rightarrow> error + byte list" where
  "Vector_tobytes L [] = Inr []"
| "Vector_tobytes L (ord # rest) =
     (case pack_f L ord of
        Inl err \<Rightarrow> Inl err
      | Inr b \<Rightarrow> (case Vector_tobytes L rest of Inl err \<Rightarrow> Inl err | Inr bs \<Rightarrow> Inr (b @ bs)))"

text \<open>
  \<^verbatim>\<open>DataModel._write\<close> (lines 564-605). \<^verbatim>\<open>array_items\<close> gives the items of a value
  whose type is a subclass of \<^verbatim>\<open>_Array\<close> (the items of a \<^verbatim>\<open>_ColorArray\<close> are made
  \<^verbatim>\<open>Vector4\<close> by the constructor; \<^verbatim>\<open>_MatrixArray\<close> is no subclass of \<^verbatim>\<open>_Array\<close>);
  \<^verbatim>\<open>write_str\<close> is the branch for \<^verbatim>\<open>str\<close>, \<^verbatim>\<open>write_scalar\<close> the branches for the
  other types that are not arrays. \<^verbatim>\<open>Color.tobytes\<close> indexes the list with its own
  float items, which raises TypeError.
\<close>

fun array_items :: "pyvalue \<Rightarrow> pyvalue list option" where
  "array_items (VElementArray xs) = Some (map VElement xs)"
| "array_items (VIntArray xs) = Some (map VInt xs)"
| "array_items (VFloatArray xs) = Some (map VFloat xs)"
| "array_items (VBoolArray xs) = Some (map VBool xs)"
| "array_items (VStrArray xs) = Some (map VStr xs)"
| "array_items (VBinaryArray xs) = Some (map VBinary xs)"
| "array_items (VTimeArray xs) = Some (map VTime xs)"
| "array_items (VColorArray xs) = Some (map (VVector Vector4) xs)"
| "array_items (VVectorArray vt xs) = Some (map (VVector vt) xs)"
| "array_items _ = None"

definition write_str :: "string \<Rightarrow> bool \<Rightarrow> datamodel \<Rightarrow> error option \<times> datamodel" where
  "write_str v suppress_dict self =
     (if suppress_dict then out_write_packed (encode_binary_string v) self
      else (case dm_string_dict self of
              None \<Rightarrow> (Some PyAttributeError, self)
            | Some d \<Rightarrow> write_string d v self))"

fun write_scalar ::
  "pylib \<Rightarrow> (eref \<Rightarrow> element) \<Rightarrow> pyvalue \<Rightarrow> bool \<Rightarrow> datamodel \<Rightarrow> error option \<times> datamodel" where
  "write_scalar L E (VBytes b) suppress_dict self = out_write b self"
| "write_scalar L E (VBinary b) suppress_dict self =
     and_then (out_write_packed (pack_i (int (length b)))) (out_write b) self"
| "write_scalar L E (VUUID u) suppress_dict self = out_write (uuid_bytes u) self"
| "write_scalar L E (VElement e) suppress_dict self =
     (if e_is_placeholder (E e) then
        (if dm_encoding_ver self < 5 then out_write_packed (pack_i (- 1)) self
         else and_then (out_write_packed (pack_i (- 2))) (write_str (uuid_str (e_id (E e))) False) self)
      else (case elem_index E e (dm_elem_chain self) of
              Inl err \<Rightarrow> (Some err, self)
            | Inr i \<Rightarrow> out_write_packed (pack_i (int i)) self))"
| "write_scalar L E (VStr v) suppress_dict self = write_str v suppress_dict self"
| "write_scalar L E (VVector vt xs) suppress_dict self = out_write_packed (Vector_tobytes L xs) self"
| "write_scalar L E (VColor xs) suppress_dict self =
     (if xs = [] then out_write [] self else (Some TypeError, self))"
| "write_scalar L E (VTime t) suppress_dict self = out_write_packed (Time_tobytes t) self"
| "write_scalar L E (VBool b) suppress_dict self = out_write_packed (pack_b (if b then 1 else 0)) self"
| "write_scalar L E (VInt i) suppress_dict self = out_write_packed (pack_i i) self"
| "write_scalar L E (VFloat x) suppress_dict self = out_write_packed (pack_f L x) self"
| "write_scalar L E _ suppress_dict self = (Some TypeError, self)"

definition DataModel_write ::
  "pylib \<Rightarrow> (eref \<Rightarrow> element) \<Rightarrow> pyvalue \<Rightarrow> bool \<Rightarrow> datamodel \<Rightarrow> error option \<times> datamodel" where
  "DataModel_write L E v suppress_dict self =
     (case array_items v of
        Some items \<Rightarrow>
          and_then (out_write_packed (pack_i (int (length items))))
            (foreach (\<lambda>item. write_scalar L E item True) items) self
      | None \<Rightarrow> write_scalar L E v suppress_dict self)"

text \<open>
  \<^verbatim>\<open>DataModel._write_element_index\<close> (lines 607-623); the first argument bounds the
  depth of the recursion. \<^verbatim>\<open>write_element_head\<close> is its three writes of the type,
  the name and the id (lines 609-611), \<^verbatim>\<open>index_attr\<close> the body of its loop over the
  attributes.
\<close>

definition index_attr ::
  "(eref \<Rightarrow> element) \<Rightarrow> (eref \<Rightarrow> datamodel \<Rightarrow> error option \<times> datamodel)
     \<Rightarrow> pyvalue \<Rightarrow> datamodel \<Rightarrow> error option \<times> datamodel" where
  "index_attr E rec attr self =
     (case attr of
        VElement a \<Rightarrow> (if \<not> elem_in E a (dm_elem_chain self) then rec a self else (None, self))
      | VElementArray arr \<Rightarrow>
          foreach (\<lambda>i self'. if \<not> elem_in E i (dm_elem_chain self') then rec i self'
                              else (None, self')) arr self
      | _ \<Rightarrow> (None, self))"

definition write_element_head ::
  "pylib \<Rightarrow> (eref \<Rightarrow> element) \<Rightarrow> eref \<Rightarrow> datamodel \<Rightarrow> error option \<times> datamodel" where
  "write_element_head L E elem =
     and_then (DataModel_write L E (VStr (e_type (E elem))) False)
    (and_then (\<lambda>self'. DataModel_write L E (VStr (e_name (E elem)))
                          (dm_encoding_ver self' < 4) self')
       (DataModel_write L E (VUUID (e_id (E elem))) False))"

primrec write_element_index ::
  "nat \<Rightarrow> pylib \<Rightarrow> (eref \<Rightarrow> element) \<Rightarrow> eref \<Rightarrow> datamodel \<Rightarrow> error option \<times> datamodel" where
  "write_element_index 0 L E elem self = (Some RecursionError, self)"
| "write_element_index (Suc n) L E elem self =
     (if e_is_placeholder (E elem) then (None, self)
      else
        and_then (write_element_head L E elem)
       (and_then (\<lambda>self'. (None, self'\<lparr>dm_elem_chain := dm_elem_chain self' @ [elem]\<rparr>))
          (foreach (index_attr E (write_element_index n L E)) (map snd (e_attrs (E elem)))))
        self)"

text \<open>\<^verbatim>\<open>DataModel._write_element_props\<close> (lines 625-636); \<^verbatim>\<open>write_prop\<close> is the body
  of its loop over the attributes of one element.\<close>

definition write_type_id :: "pylib \<Rightarrow> (eref \<Rightarrow> element) \<Rightarrow> pyvalue \<Rightarrow> datamodel \<Rightarrow> error option \<times> datamodel" where
  "write_type_id L E attr self =
     (case get_dmx_type_id (dm_encoding self) (dm_encoding_ver self) (type_of attr) of
        Inl err \<Rightarrow> (Some err, self)
      | Inr None \<Rightarrow> (Some StructError, self)
      | Inr (Some i) \<Rightarrow>
          (case pack_b (int i) of
             Inl err \<Rightarrow> (Some err, self)
           | Inr bs \<Rightarrow> DataModel_write L E (VBytes bs) False self))"

definition write_prop ::
  "pylib \<Rightarrow> (eref \<Rightarrow> element) \<Rightarrow> string \<times> pyvalue \<Rightarrow> datamodel \<Rightarrow> error option \<times> datamodel" where
  "write_prop L E na =
     (case na of (name, attr) \<Rightarrow>
        and_then (DataModel_write L E (VStr name) False)
       (and_then (write_type_id L E attr)
          (\<lambda>self. if attr = VNone then DataModel_write L E (VInt (- 1)) False self
                   else DataModel_write L E attr (dm_encoding_ver self < 4) self)))"

definition write_element_props ::
  "pylib \<Rightarrow> (eref \<Rightarrow> element) \<Rightarrow> datamodel \<Rightarrow> error option \<times> datamodel" where
  "write_element_props L E self =
     foreach (\<lambda>elem. if e_is_placeholder (E elem) then (\<lambda>self'. (None, self'))
                      else and_then (DataModel_write L E (VInt (int (length (e_attrs (E elem))))) False)
                             (foreach (write_prop L E) (e_attrs (E elem))))
       (dm_elem_chain self) self"

subsection \<open>Counting the users of the elements\<close>

text \<open>
  The counting pass of \<^verbatim>\<open>echo\<close> (lines 664-682). The state is the store and the list
  \<^verbatim>\<open>out_elems\<close>; the first argument of \<^verbatim>\<open>count_child_elems\<close> bounds the depth of the
  recursion. \<^verbatim>\<open>count_slot\<close> is what the loop does for one element slot (an Element
  attribute or an entry of an element array), \<^verbatim>\<open>count_attr\<close> for one attribute.
\<close>

definition incr_users :: "eref \<Rightarrow> heap \<Rightarrow> heap" where
  "incr_users a h = h\<lparr>elems := (elems h)(a := (elems h a)\<lparr>e_users := e_users (elems h a) + 1\<rparr>)\<rparr>"

definition count_slot ::
  "(eref \<Rightarrow> heap \<times> eref list \<Rightarrow> error option \<times> heap \<times> eref list)
     \<Rightarrow> eref \<Rightarrow> heap \<times> eref list \<Rightarrow> error option \<times> heap \<times> eref list" where
  "count_slot rec a st =
     (case (if \<not> elem_in (elems (fst st)) a (snd st) then rec a st else (None, st)) of
        (Some err, st') \<Rightarrow> (Some err, st')
      | (None, st') \<Rightarrow> (None, (incr_users a (fst st'), snd st')))"

definition count_attr ::
  "(eref \<Rightarrow> heap \<times> eref list \<Rightarrow> error option \<times> heap \<times> eref list)
     \<Rightarrow> pyvalue \<Rightarrow> heap \<times> eref list \<Rightarrow> error option \<times> heap \<times> eref list" where
  "count_attr rec attr st =
     (case attr of
        VElement a \<Rightarrow> count_slot rec a st
      | VElementArray arr \<Rightarrow> foreach (count_slot rec) arr st
      | _ \<Rightarrow> (None, st))"

primrec count_child_elems ::
  "nat \<Rightarrow> eref \<Rightarrow> heap \<times> eref list \<Rightarrow> error option \<times> heap \<times> eref list" where
  "count_child_elems 0 elem st = (Some RecursionError, st)"
| "count_child_elems (Suc n) elem st =
     foreach (count_attr (count_child_elems n)) (map snd (e_attrs (elems (fst st) elem)))
       (fst st, snd st @ [elem])"

definition reset_users :: "eref list \<Rightarrow> heap \<Rightarrow> heap" where
  "reset_users es h =
     foldl (\<lambda>h' elem. h'\<lparr>elems := (elems h')(elem := (elems h' elem)\<lparr>e_users := 0\<rparr>)\<rparr>) h es"

text \<open>Lines 664-682 as a whole, for the DataModel \<^verbatim>\<open>dm\<close>.\<close>

definition count_pass :: "nat \<Rightarrow> dmref \<Rightarrow> heap \<Rightarrow> error option \<times> heap \<times> eref list" where
  "count_pass n dm h =
     (case dm_root (dms h dm) of
        None \<Rightarrow> (Some TypeError, (reset_users (dm_elements (dms h dm)) h, []))
      | Some r \<Rightarrow> count_child_elems n r (reset_users (dm_elements (dms h dm)) h, []))"

subsection \<open>Writing keyvalues2\<close>

definition kv2_quote :: "string \<Rightarrow> string" where
  "kv2_quote s = CHR 0x22 # s @ [CHR 0x22]"

definition get_kv2_indent :: "nat \<Rightarrow> string" where
  "get_kv2_indent kv2_indent = replicate kv2_indent (CHR 0x09)"

definition rstrip :: "char \<Rightarrow> string \<Rightarrow> string" where
  "rstrip c s = rev (dropWhile (\<lambda>x. x = c) (rev s))"

fun join :: "string \<Rightarrow> string list \<Rightarrow> string" where
  "join sep [] = []"
| "join sep [x] = x"
| "join sep (x # y # ys) = x @ sep @ join sep (y # ys)"

definition hexlify :: "byte list \<Rightarrow> string" where
  "hexlify bs = concat (map (\<lambda>b. digits_of 16 2 (unat b)) bs)"

fun map_result :: "('a \<Rightarrow> error + 'b) \<Rightarrow> 'a list \<Rightarrow> error + 'b list" where
  "map_result f [] = Inr []"
| "map_result f (x # xs) =
     (case f x of
        Inl err \<Rightarrow> Inl err
      | Inr y \<Rightarrow> (case map_result f xs of Inl err \<Rightarrow> Inl err | Inr ys \<Rightarrow> Inr (y # ys)))"

text \<open>
  \<^verbatim>\<open>_get_kv2_repr\<close> (lines 91-107) for a value that is no array; a vector is printed
  by \<^verbatim>\<open>_Vector.__repr__\<close>, a matrix as the list of lists it is. The last equation
  is not reached from \<^verbatim>\<open>get_kv2\<close>, which raises before for a value that is no
  attribute type.
\<close>

definition float_kv2 :: "pylib \<Rightarrow> pyfloat \<Rightarrow> string" where
  "float_kv2 L x = rstrip (CHR ''.'') (rstrip (CHR ''0'') (format_10f L x))"

fun scalar_kv2_repr :: "pylib \<Rightarrow> (eref \<Rightarrow> element) \<Rightarrow> pyvalue \<Rightarrow> string" where
  "scalar_kv2_repr L E (VBool b) = (if b then ''1'' else ''0'')"
| "scalar_kv2_repr L E (VFloat x) = float_kv2 L x"
| "scalar_kv2_repr L E (VElement e) = uuid_str (e_id (E e))"
| "scalar_kv2_repr L E (VBinary b) = hexlify b"
| "scalar_kv2_repr L E VNone = []"
| "scalar_kv2_repr L E (VInt i) = str_int i"
| "scalar_kv2_repr L E (VStr v) = v"
| "scalar_kv2_repr L E (VTime t) = float_str L t"
| "scalar_kv2_repr L E (VVector vt xs) = join '' '' (map (float_kv2 L) xs)"
| "scalar_kv2_repr L E (VColor xs) = join '' '' (map (float_kv2 L) xs)"
| "scalar_kv2_repr L E (VMatrix rows) =
     ''['' @ join '', '' (map (\<lambda>row. ''['' @ join '', '' (map (float_str L) row) @ '']'') rows) @ '']''"
| "scalar_kv2_repr L E _ = []"

text \<open>
  \<^verbatim>\<open>_Array.to_kv2\<close> (lines 120-145). \<^verbatim>\<open>rec\<close> is \<^verbatim>\<open>get_kv2\<close> of an item at a given
  value of the global \<^verbatim>\<open>_kv2_indent\<close>, which the function raises by one around the
  items of an element array.
\<close>

definition elem_item_kv2 ::
  "(eref \<Rightarrow> element) \<Rightarrow> (nat \<Rightarrow> eref \<Rightarrow> error + string) \<Rightarrow> nat \<Rightarrow> eref \<Rightarrow> error + string" where
  "elem_item_kv2 E rec kv2_indent item =
     (if e_users (E item) = 1 then
        (case rec kv2_indent item of
           Inl err \<Rightarrow> Inl err
         | Inr body \<Rightarrow> Inr (get_kv2_indent kv2_indent @ body))
      else Inr (get_kv2_indent kv2_indent @ kv2_quote ''element'' @ '' ''
                @ kv2_quote (uuid_str (e_id (E item)))))"

definition to_kv2 ::
  "pylib \<Rightarrow> (eref \<Rightarrow> element) \<Rightarrow> (nat \<Rightarrow> eref \<Rightarrow> error + string) \<Rightarrow> nat \<Rightarrow> pyvalue \<Rightarrow> error + string" where
  "to_kv2 L E rec kv2_indent v =
     (case v of
        VElementArray xs \<Rightarrow>
          (if xs = [] then Inr ''[ ]''
           else (case map_result (elem_item_kv2 E rec (kv2_indent + 1)) xs of
                   Inl err \<Rightarrow> Inl err
                 | Inr strs \<Rightarrow>
                     Inr ([CHR 0x0A] @ get_kv2_indent kv2_indent @ ''['' @ [CHR 0x0A]
                          @ join ('', '' @ [CHR 0x0A]) strs
                          @ [CHR 0x0A] @ get_kv2_indent kv2_indent @ '']'')))
      | _ \<Rightarrow>
          (case array_items v of
             None \<Rightarrow> Inl PyAttributeError
           | Some items \<Rightarrow>
               if items = [] then Inr ''[ ]''
               else Inr (''[ '' @ join '', '' (map (\<lambda>item. kv2_quote (scalar_kv2_repr L E item)) items)
                         @ '' ]'')))"

definition get_kv2_repr ::
  "pylib \<Rightarrow> (eref \<Rightarrow> element) \<Rightarrow> (nat \<Rightarrow> eref \<Rightarrow> error + string) \<Rightarrow> nat \<Rightarrow> pyvalue \<Rightarrow> error + string" where
  "get_kv2_repr L E rec kv2_indent v =
     (if array_items v \<noteq> None then to_kv2 L E rec kv2_indent v
      else Inr (scalar_kv2_repr L E v))"

text \<open>\<^verbatim>\<open>_make_attr_str\<close> (lines 367-378).\<close>

fun attr_items :: "bool \<Rightarrow> nat \<Rightarrow> string list \<Rightarrow> string" where
  "attr_items is_array i [] = []"
| "attr_items is_array i (item # rest) =
     (if 0 < i then '' '' else []) @ (if is_array \<and> i = 2 then item else kv2_quote item)
     @ attr_items is_array (Suc i) rest"

definition make_attr_str :: "nat \<Rightarrow> string list \<Rightarrow> bool \<Rightarrow> string" where
  "make_attr_str kv2_indent attr is_array =
     get_kv2_indent kv2_indent @ attr_items is_array 0 attr @ [CHR 0x0A]"

text \<open>The type string of an attribute (lines 397-403).\<close>

definition kv2_type_str :: "pyvalue \<Rightarrow> error + string" where
  "kv2_type_str attr =
     (if array_items attr \<noteq> None then
        (case type_of attr of
           ArrayOf DElement \<Rightarrow> Inr ''element_array''
         | ArrayOf t \<Rightarrow>
             (case index_of t dmxtypes of
                None \<Rightarrow> Inl ValueError
              | Some i \<Rightarrow> Inr (dmxtypes_str ! i @ ''_array''))
         | _ \<Rightarrow> Inl ValueError)
      else (case type_of attr of
              Scalar t \<Rightarrow>
                (case index_of t dmxtypes of
                   None \<Rightarrow> Inl ValueError
                 | Some i \<Rightarrow> Inr (dmxtypes_str ! i))
            | _ \<Rightarrow> Inl ValueError))"

text \<open>
  The body of the loop of \<^verbatim>\<open>get_kv2\<close> over the attributes (lines 383-409), at the
  raised indent, and \<^verbatim>\<open>Element.get_kv2\<close> itself (lines 360-412). The first argument
  of \<^verbatim>\<open>get_kv2\<close> bounds the depth to which element bodies are nested; \<^verbatim>\<open>kv2_indent\<close>
  is the value of the global \<^verbatim>\<open>_kv2_indent\<close> at the call.
\<close>

definition attr_kv2 ::
  "pylib \<Rightarrow> (eref \<Rightarrow> element) \<Rightarrow> (nat \<Rightarrow> eref \<Rightarrow> error + string) \<Rightarrow> nat \<Rightarrow> bool
     \<Rightarrow> string \<times> pyvalue \<Rightarrow> error + string" where
  "attr_kv2 L E rec kv2_indent deep na =
     (case na of (name, attr) \<Rightarrow>
        if attr = VNone then Inr (make_attr_str kv2_indent [name, ''element'', []] False)
        else if (case attr of VElement a \<Rightarrow> e_users (E a) < 2 \<and> deep | _ \<Rightarrow> False) then
          (case attr of
             VElement a \<Rightarrow>
               (case rec kv2_indent a of
                  Inl err \<Rightarrow> Inl err
                | Inr body \<Rightarrow>
                    Inr (get_kv2_indent kv2_indent @ kv2_quote name @ '' '' @ body @ [CHR 0x0A]))
           | _ \<Rightarrow> Inl TypeError)
        else
          (case kv2_type_str attr of
             Inl err \<Rightarrow> Inl err
           | Inr type_str \<Rightarrow>
               (case get_kv2_repr L E rec kv2_indent attr of
                  Inl err \<Rightarrow> Inl err
                | Inr r \<Rightarrow>
                    Inr (make_attr_str kv2_indent [name, type_str, r] (array_items attr \<noteq> None)))))"

primrec get_kv2 ::
  "nat \<Rightarrow> pylib \<Rightarrow> (eref \<Rightarrow> element) \<Rightarrow> nat \<Rightarrow> bool \<Rightarrow> eref \<Rightarrow> error + string" where
  "get_kv2 0 L E kv2_indent deep self = Inl RecursionError"
| "get_kv2 (Suc n) L E kv2_indent deep self =
     (case map_result (attr_kv2 L E (\<lambda>i a. get_kv2 n L E i True a) (kv2_indent + 1) deep)
             (e_attrs (E self)) of
        Inl err \<Rightarrow> Inl err
      | Inr attr_lines \<Rightarrow>
          Inr (kv2_quote (e_type (E self)) @ [CHR 0x0A] @ get_kv2_indent kv2_indent @ ''{'' @ [CHR 0x0A]
               @ make_attr_str (kv2_indent + 1) [''id'', ''elementid'', uuid_str (e_id (E self))] False
               @ make_attr_str (kv2_indent + 1) [''name'', ''string'', e_name (E self)] False
               @ concat attr_lines
               @ get_kv2_indent kv2_indent @ ''}''))"

subsection \<open>DataModel.echo\<close>

definition text_write :: "string \<Rightarrow> datamodel \<Rightarrow> error option \<times> datamodel" where
  "text_write t self =
     (case dm_out self of
        StringIO b \<Rightarrow> (None, self\<lparr>dm_out := StringIO (b @ t)\<rparr>)
      | BytesIO b \<Rightarrow> (Some TypeError, self)
      | NoOut \<Rightarrow> (Some PyAttributeError, self))"

definition header_format :: "string \<Rightarrow> int \<Rightarrow> string \<Rightarrow> int \<Rightarrow> string" where
  "header_format encoding encoding_ver format format_ver =
     ''<!-- dmx encoding '' @ encoding @ '' '' @ str_int encoding_ver @ '' format '' @ format
     @ '' '' @ str_int format_ver @ '' -->''"

definition header_proto2 :: "int \<Rightarrow> string" where
  "header_proto2 encoding_ver = ''<!-- DMXVersion binary_v'' @ str_int encoding_ver @ '' -->''"

text \<open>Running an action of the DataModel object \<^verbatim>\<open>dm\<close> on the store.\<close>

definition with_self ::
  "dmref \<Rightarrow> (datamodel \<Rightarrow> error option \<times> datamodel) \<Rightarrow> heap \<Rightarrow> error option \<times> heap" where
  "with_self dm f h = (case f (dms h dm) of (r, self') \<Rightarrow> (r, h\<lparr>dms := (dms h)(dm := self')\<rparr>))"

text \<open>Lines 651-658: the header.\<close>

definition echo_header :: "datamodel \<Rightarrow> error option \<times> datamodel" where
  "echo_header self =
     (if dm_encoding self = ''binary_proto'' then
        out_write_packed (encode_binary_string (header_proto2 (dm_encoding_ver self) @ [CHR 0x0A])) self
      else (let header = header_format (dm_encoding self) (dm_encoding_ver self)
                            (dm_format self) (dm_format_ver self)
            in if dm_encoding self = ''binary'' then
                 out_write_packed (encode_binary_string (header @ [CHR 0x0A])) self
               else if dm_encoding self = ''keyvalues2'' then text_write (header @ [CHR 0x0A]) self
               else (None, self)))"

text \<open>Lines 660-662: the dictionary, made and written for the encoding \<^verbatim>\<open>binary\<close> only.\<close>

definition echo_dictionary :: "pylib \<Rightarrow> nat \<Rightarrow> dmref \<Rightarrow> heap \<Rightarrow> error option \<times> heap" where
  "echo_dictionary L n dm h =
     (if dm_encoding (dms h dm) = ''binary'' then
        (case StringDictionary_collect L n (elems h) (dm_encoding (dms h dm))
                (dm_encoding_ver (dms h dm)) (dm_root (dms h dm)) of
           Inl err \<Rightarrow> (Some err, h)
         | Inr d \<Rightarrow> with_self dm (\<lambda>self. write_dictionary d (self\<lparr>dm_string_dict := Some d\<rparr>)) h)
      else (None, h))"

text \<open>Lines 684-688: the element count, the element index and the attributes.\<close>

definition echo_binary :: "pylib \<Rightarrow> nat \<Rightarrow> dmref \<Rightarrow> eref list \<Rightarrow> heap \<Rightarrow> error option \<times> heap" where
  "echo_binary L n dm out_elems h =
     with_self dm
       (and_then (DataModel_write L (elems h) (VInt (int (length out_elems))) False)
       (and_then (\<lambda>self. (None, self\<lparr>dm_elem_chain := []\<rparr>))
       (and_then (\<lambda>self. case dm_root self of
                            None \<Rightarrow> (Some PyAttributeError, self)
                          | Some r \<Rightarrow> write_element_index n L (elems h) r self)
          (write_element_props L (elems h))))) h"

text \<open>Lines 689-693: the root's block, then the block of each element with more than
  one user, in the order of \<^verbatim>\<open>out_elems\<close>.\<close>

definition write_block :: "pylib \<Rightarrow> nat \<Rightarrow> (eref \<Rightarrow> element) \<Rightarrow> eref \<Rightarrow> datamodel \<Rightarrow> error option \<times> datamodel" where
  "write_block L n E elem self =
     (case get_kv2 n L E 0 True elem of
        Inl err \<Rightarrow> (Some err, self)
      | Inr t \<Rightarrow> text_write (t @ [CHR 0x0A, CHR 0x0A]) self)"

definition echo_kv2 :: "pylib \<Rightarrow> nat \<Rightarrow> dmref \<Rightarrow> eref list \<Rightarrow> heap \<Rightarrow> error option \<times> heap" where
  "echo_kv2 L n dm out_elems h =
     with_self dm
       (and_then (\<lambda>self. case dm_root self of
                            None \<Rightarrow> (Some PyAttributeError, self)
                          | Some r \<Rightarrow> write_block L n (elems h) r self)
          (foreach (\<lambda>elem self. if 1 < e_users (elems h elem) then write_block L n (elems h) elem self
                                 else (None, self)) out_elems)) h"

text \<open>
  \<^verbatim>\<open>DataModel.echo\<close> (lines 638-696) for the DataModel object \<^verbatim>\<open>dm\<close>: the value
  returned or the exception raised, and the store as the call leaves it. \<^verbatim>\<open>n\<close>
  bounds the depth of each of the recursions.
\<close>

definition echo :: "pylib \<Rightarrow> nat \<Rightarrow> dmref \<Rightarrow> string \<Rightarrow> int \<Rightarrow> heap \<Rightarrow> (error + outbuf) \<times> heap" where
  "echo L n dm encoding encoding_ver h =
     (case check_support encoding encoding_ver of
        Some err \<Rightarrow> (Inl err, h)
      | None \<Rightarrow>
          (let h1 = h\<lparr>dms := (dms h)(dm := (dms h dm)
                      \<lparr>dm_out := (if encoding \<in> {''binary'', ''binary_proto''} then BytesIO []
                                  else StringIO []),
                       dm_encoding := encoding, dm_encoding_ver := encoding_ver\<rparr>)\<rparr>
           in case and_then (with_self dm echo_header) (echo_dictionary L n dm) h1 of
                (Some err, h2) \<Rightarrow> (Inl err, h2)
              | (None, h2) \<Rightarrow>
                  (case count_pass n dm h2 of
                     (Some err, (h3, out_elems)) \<Rightarrow> (Inl err, h3)
                   | (None, (h3, out_elems)) \<Rightarrow>
                       (case (if encoding \<in> {''binary'', ''binary_proto''}
                              then echo_binary L n dm out_elems h3
                              else if encoding = ''keyvalues2'' then echo_kv2 L n dm out_elems h3
                              else (None, h3)) of
                          (Some err, h4) \<Rightarrow> (Inl err, h4)
                        | (None, h4) \<Rightarrow>
                            (let h5 = h4\<lparr>dms := (dms h4)(dm := (dms h4 dm)
                                          \<lparr>dm_string_dict := None\<rparr>)\<rparr>
                             in (Inr (dm_out (dms h5 dm)), h5))))))"

text \<open>
  \<^verbatim>\<open>DataModel.write\<close> (lines 698-700). The files are a map from paths to contents;
  \<^verbatim>\<open>open(path, 'wb')\<close> or \<^verbatim>\<open>open(path, 'w')\<close> raises where the path cannot be opened for
  writing, and otherwise leaves an empty file at the path, whatever was there. This
  happens before \<^verbatim>\<open>echo\<close> is called; what \<^verbatim>\<open>echo\<close> returns is then written to the
  file, which the \<^verbatim>\<open>with\<close> statement closes also when \<^verbatim>\<open>echo\<close> raises.
\<close>

record filesys =
  fs_files :: "string \<Rightarrow> outbuf option"
  fs_writable :: "string \<Rightarrow> bool"

definition file_write :: "outbuf \<Rightarrow> outbuf \<Rightarrow> error + outbuf" where
  "file_write file data =
     (case (file, data) of
        (BytesIO b, BytesIO b') \<Rightarrow> Inr (BytesIO (b @ b'))
      | (StringIO t, StringIO t') \<Rightarrow> Inr (StringIO (t @ t'))
      | _ \<Rightarrow> Inl TypeError)"

definition DataModel_write_path ::
  "pylib \<Rightarrow> nat \<Rightarrow> dmref \<Rightarrow> string \<Rightarrow> string \<Rightarrow> int \<Rightarrow> heap \<times> filesys
     \<Rightarrow> error option \<times> heap \<times> filesys" where
  "DataModel_write_path L n dm path encoding encoding_ver st =
     (case st of (h, fs) \<Rightarrow>
        if \<not> fs_writable fs path then (Some OSError, (h, fs))
        else
          (let file = (if encoding \<in> {''binary'', ''binary_proto''} then BytesIO [] else StringIO []);
               fs1 = fs\<lparr>fs_files := (fs_files fs)(path := Some file)\<rparr>
           in case echo L n dm encoding encoding_ver h of
                (Inl err, h') \<Rightarrow> (Some err, (h', fs1))
              | (Inr data, h') \<Rightarrow>
                  (case file_write file data of
                     Inl err \<Rightarrow> (Some err, (h', fs1))
                   | Inr file' \<Rightarrow> (None, (h', fs\<lparr>fs_files := (fs_files fs)(path := Some file')\<rparr>)))))"

subsection \<open>Reading the binary encodings\<close>

text \<open>Subscription of a list by an int: below zero the position is taken from the
  back, outside the list IndexError is raised.\<close>

definition py_nth :: "'a list \<Rightarrow> int \<Rightarrow> error + 'a" where
  "py_nth xs i =
     (if 0 \<le> i \<and> i < int (length xs) then Inr (xs ! nat i)
      else if i < 0 \<and> - int (length xs) \<le> i then Inr (xs ! nat (int (length xs) + i))
      else Inl IndexError)"



definition read_string :: "strdict \<Rightarrow> byte list \<Rightarrow> error + string \<times> byte list" where
  "read_string d in_file =
     (if sd_dummy d then get_str in_file
      else (case (if sd_indice_size d = 2 then get_short in_file else get_int in_file) of
              Inl err \<Rightarrow> Inl err
            | Inr (i, file') \<Rightarrow>
                (case py_nth (sd_strings d) i of
                   Inl err \<Rightarrow> Inl err
                 | Inr v \<Rightarrow> Inr (v, file'))))"


text \<open>\<^verbatim>\<open>get_vec\<close> and \<^verbatim>\<open>get_color\<close> (lines 79-82).\<close>

fun get_vec :: "pylib \<Rightarrow> nat \<Rightarrow> byte list \<Rightarrow> error + pyfloat list \<times> byte list" where
  "get_vec L 0 file = Inr ([], file)"
| "get_vec L (Suc k) file =
     (if length file < 4 * Suc k then Inl StructError
      else (case get_vec L k (drop 4 file) of
              Inl err \<Rightarrow> Inl err
            | Inr (xs, file') \<Rightarrow> Inr (unpack_f L (take 4 file) # xs, file')))"

definition get_color :: "byte list \<Rightarrow> error + pyvalue \<times> byte list" where
  "get_color file =
     (if length file < 4 then Inl StructError
      else Inr (VColor (map (\<lambda>b. of_nat (unat b)) (take 4 file)), drop 4 file))"

text \<open>
  \<^verbatim>\<open>get_value\<close> (lines 898-928), for the binary encoding version \<^verbatim>\<open>encoding_ver\<close>,
  the dictionary \<^verbatim>\<open>d\<close> and the DataModel \<^verbatim>\<open>dm\<close> being read; the state is the store
  and the unread rest of the file.
\<close>

definition get_value ::
  "pylib \<Rightarrow> int \<Rightarrow> strdict \<Rightarrow> dmref \<Rightarrow> dmxtype \<Rightarrow> bool \<Rightarrow> heap \<times> byte list
     \<Rightarrow> error + pyvalue \<times> heap \<times> byte list" where
  "get_value L encoding_ver d dm attr_type from_array st =
     (case st of (h, in_file) \<Rightarrow>
      (case attr_type of
         DElement \<Rightarrow>
           (case get_int in_file of
              Inl err \<Rightarrow> Inl err
            | Inr (element_index, file') \<Rightarrow>
                if element_index = - 1 then Inr (VNone, h, file')
                else if element_index = - 2 then
                  (case get_str file' of
                     Inl err \<Rightarrow> Inl err
                   | Inr (hex, file'') \<Rightarrow>
                       (case uuid_of_hex L hex of
                          Inl err \<Rightarrow> Inl err
                        | Inr uid \<Rightarrow>
                            (case add_element dm ''Missing element'' ''DmElement'' uid True h of
                               (new, h') \<Rightarrow> Inr (VElement new, h', file''))))
                else (case py_nth (dm_elements (dms h dm)) element_index of
                        Inl err \<Rightarrow> Inl err
                      | Inr e \<Rightarrow> Inr (VElement e, h, file')))
       | DStr \<Rightarrow>
           (case (if encoding_ver < 4 \<or> from_array then get_str in_file else read_string d in_file) of
              Inl err \<Rightarrow> Inl err
            | Inr (v, file') \<Rightarrow> Inr (VStr v, h, file'))
       | DInt \<Rightarrow>
           (case get_int in_file of Inl err \<Rightarrow> Inl err | Inr (v, file') \<Rightarrow> Inr (VInt v, h, file'))
       | DFloat \<Rightarrow>
           (if length in_file < 4 then Inl StructError
            else Inr (VFloat (unpack_f L (take 4 in_file)), h, drop 4 in_file))
       | DBool \<Rightarrow> (case get_bool in_file of (v, file') \<Rightarrow> Inr (VBool v, h, file'))
       | DVector vt \<Rightarrow>
           (case get_vec L (case vt of Vector2 \<Rightarrow> 2 | Vector3 \<Rightarrow> 3 | Angle \<Rightarrow> 3
                                    | Vector4 \<Rightarrow> 4 | Quaternion \<Rightarrow> 4) in_file of
              Inl err \<Rightarrow> Inl err
            | Inr (xs, file') \<Rightarrow> Inr (VVector vt xs, h, file'))
       | DMatrix \<Rightarrow>
           (case get_vec L 4 in_file of
              Inl err \<Rightarrow> Inl err
            | Inr (r1, f1) \<Rightarrow>
           (case get_vec L 4 f1 of
              Inl err \<Rightarrow> Inl err
            | Inr (r2, f2) \<Rightarrow>
           (case get_vec L 4 f2 of
              Inl err \<Rightarrow> Inl err
            | Inr (r3, f3) \<Rightarrow>
           (case get_vec L 4 f3 of
              Inl err \<Rightarrow> Inl err
            | Inr (r4, f4) \<Rightarrow> Inr (VMatrix [r1, r2, r3, r4], h, f4)))))
       | DColor \<Rightarrow>
           (case get_color in_file of Inl err \<Rightarrow> Inl err | Inr (v, file') \<Rightarrow> Inr (v, h, file'))
       | DTime \<Rightarrow>
           (case get_int in_file of
              Inl err \<Rightarrow> Inl err
            | Inr (v, file') \<Rightarrow> Inr (VTime (Time_from_int v), h, file'))
       | DBinary \<Rightarrow>
           (case get_int in_file of
              Inl err \<Rightarrow> Inl err
            | Inr (n, file') \<Rightarrow>
                if n < 0 then Inr (VBinary file', h, [])
                else Inr (VBinary (take (nat n) file'), h, drop (nat n) file'))))"

text \<open>The loop over the items of an array attribute (lines 945-946): \<^verbatim>\<open>array_len\<close>
  calls of \<^verbatim>\<open>get_value\<close> with \<^verbatim>\<open>from_array=True\<close>.\<close>

fun read_array_items ::
  "pylib \<Rightarrow> int \<Rightarrow> strdict \<Rightarrow> dmref \<Rightarrow> dmxtype \<Rightarrow> nat \<Rightarrow> heap \<times> byte list
     \<Rightarrow> error + pyvalue list \<times> heap \<times> byte list" where
  "read_array_items L encoding_ver d dm arr_item_type 0 st = Inr ([], st)"
| "read_array_items L encoding_ver d dm arr_item_type (Suc k) st =
     (case get_value L encoding_ver d dm arr_item_type True st of
        Inl err \<Rightarrow> Inl err
      | Inr (v, st') \<Rightarrow>
          (case read_array_items L encoding_ver d dm arr_item_type k st' of
             Inl err \<Rightarrow> Inl err
           | Inr (vs, st'') \<Rightarrow> Inr (v # vs, st'')))"

subsection \<open>The graph of the elements\<close>

text \<open>
  The element slots of an element are its Element attributes and the entries of its
  element arrays, in the order of the attributes; \<^verbatim>\<open>slots E e\<close> lists the elements
  they hold. \<^verbatim>\<open>reachable E r\<close> are the elements reached from \<^verbatim>\<open>r\<close> through slots,
  and \<^verbatim>\<open>slot_count E S e\<close> is the number of slots of the elements of \<^verbatim>\<open>S\<close> whose
  value is \<^verbatim>\<open>e\<close>.
\<close>

fun slot_targets :: "pyvalue \<Rightarrow> eref list" where
  "slot_targets (VElement a) = [a]"
| "slot_targets (VElementArray arr) = arr"
| "slot_targets _ = []"

definition slots :: "(eref \<Rightarrow> element) \<Rightarrow> eref \<Rightarrow> eref list" where
  "slots E e = concat (map (\<lambda>na. slot_targets (snd na)) (e_attrs (E e)))"

definition reachable :: "(eref \<Rightarrow> element) \<Rightarrow> eref \<Rightarrow> eref set" where
  "reachable E r = {e. (r, e) \<in> {(a, b). b \<in> set (slots E a)}\<^sup>*}"

definition slot_count :: "(eref \<Rightarrow> element) \<Rightarrow> eref set \<Rightarrow> eref \<Rightarrow> nat" where
  "slot_count E S e = (\<Sum>x\<in>S. count_list (slots E x) e)"

text \<open>
  What the proof about the counting pass keeps track of: the pass changes no attribute
  and no id (\<^verbatim>\<open>same_graph\<close>); the elements it has appended to \<^verbatim>\<open>out_elems\<close> are
  new, lie in \<^verbatim>\<open>R\<close> and have all their slots in \<^verbatim>\<open>out_elems\<close> (\<^verbatim>\<open>post\<close>); and a
  visit of an element not yet in \<^verbatim>\<open>out_elems\<close> returns, having counted each slot of
  each appended element once (\<^verbatim>\<open>visit_ok\<close>).
\<close>

definition same_graph :: "(eref \<Rightarrow> element) \<Rightarrow> heap \<Rightarrow> bool" where
  "same_graph E0 h = (\<forall>r. e_attrs (elems h r) = e_attrs (E0 r) \<and> e_id (elems h r) = e_id (E0 r))"

definition post :: "(eref \<Rightarrow> element) \<Rightarrow> eref set \<Rightarrow> eref list \<Rightarrow> heap \<Rightarrow> eref list \<Rightarrow> bool" where
  "post E0 R out h' new =
     (same_graph E0 h' \<and> distinct (out @ new) \<and> set new \<subseteq> R
      \<and> (\<forall>x\<in>set new. set (slots E0 x) \<subseteq> set (out @ new)))"

definition visit_ok ::
  "(eref \<Rightarrow> element) \<Rightarrow> eref set \<Rightarrow> nat
     \<Rightarrow> (eref \<Rightarrow> heap \<times> eref list \<Rightarrow> error option \<times> heap \<times> eref list) \<Rightarrow> bool" where
  "visit_ok E0 R k rec =
     (\<forall>a h out. same_graph E0 h \<and> a \<in> R \<and> set out \<subseteq> R \<and> distinct out \<and> a \<notin> set out
          \<and> card (R - set out) \<le> k \<longrightarrow>
        (\<exists>h' new. rec a (h, out) = (None, (h', out @ new)) \<and> post E0 R out h' new \<and> a \<in> set new
           \<and> (\<forall>e. e_users (elems h' e)
                  = e_users (elems h e) + (\<Sum>x\<leftarrow>new. count_list (slots E0 x) e))))"






subsection \<open>Example stores\<close>

definition elem0 :: element where
  "elem0 = \<lparr>e_name = [], e_type = ''DmElement'', e_id = 0, e_is_placeholder = False,
            e_users = 0, e_datamodels = [], e_attrs = []\<rparr>"

definition dm0 :: datamodel where
  "dm0 = \<lparr>dm_format = ''model'', dm_format_ver = 1, dm_elements = [], dm_root = None,
           dm_out = NoOut, dm_encoding = [], dm_encoding_ver = 0, dm_string_dict = None,
           dm_elem_chain = []\<rparr>"

text \<open>
  DataModel 0 owns \<^verbatim>\<open>root\<close> and an element with id 12; DataModel 1 owns \<^verbatim>\<open>parent\<close>
  (id 11) whose attribute \<^verbatim>\<open>child\<close> is \<^verbatim>\<open>kid\<close>, also with id 12.
\<close>

definition heap_partial :: heap where
  "heap_partial = \<lparr>elems = (\<lambda>_. elem0)
      (0 := elem0\<lparr>e_name := ''root'', e_id := 10, e_datamodels := [0]\<rparr>,
       1 := elem0\<lparr>e_name := ''taken'', e_id := 12, e_datamodels := [0]\<rparr>,
       2 := elem0\<lparr>e_name := ''parent'', e_id := 11, e_datamodels := [1],
                 e_attrs := [(''child'', VElement 3)]\<rparr>,
       3 := elem0\<lparr>e_name := ''kid'', e_id := 12, e_datamodels := [1]\<rparr>),
     dms = (\<lambda>_. dm0)
      (0 := dm0\<lparr>dm_elements := [0, 1], dm_root := Some 0\<rparr>,
       1 := dm0\<lparr>dm_elements := [2, 3], dm_root := Some 2\<rparr>),
     next_elem = 4\<rparr>"

text \<open>
  DataModel 0 owns \<^verbatim>\<open>root\<close> and a placeholder with id 12 (as the readers create it for
  a reference to an element not yet seen); DataModel 1 owns \<^verbatim>\<open>kid\<close>, the element with
  id 12.
\<close>

definition heap_placeholder :: heap where
  "heap_placeholder = \<lparr>elems = (\<lambda>_. elem0)
      (0 := elem0\<lparr>e_name := ''root'', e_id := 10, e_datamodels := [0]\<rparr>,
       1 := elem0\<lparr>e_name := ''Missing element'', e_id := 12, e_is_placeholder := True,
                 e_datamodels := [0]\<rparr>,
       2 := elem0\<lparr>e_name := ''kid'', e_type := ''DmeTest'', e_id := 12, e_datamodels := [1],
                 e_attrs := [(''value'', VInt 42)]\<rparr>),
     dms = (\<lambda>_. dm0)
      (0 := dm0\<lparr>dm_elements := [0, 1], dm_root := Some 0\<rparr>,
       1 := dm0\<lparr>dm_elements := [2], dm_root := Some 2\<rparr>),
     next_elem = 3\<rparr>"

text \<open>
  The example of the spec: \<^verbatim>\<open>root\<close> (type DmElement) whose attribute \<^verbatim>\<open>child\<close> is
  \<^verbatim>\<open>kid\<close> (type DmeTest) with the attribute \<^verbatim>\<open>value\<close> = 42, both owned by
  DataModel 0.
\<close>

definition heap_kid :: heap where
  "heap_kid = \<lparr>elems = (\<lambda>_. elem0)
      (0 := elem0\<lparr>e_name := ''root'', e_id := 10, e_datamodels := [0],
                 e_attrs := [(''child'', VElement 1)]\<rparr>,
       1 := elem0\<lparr>e_name := ''kid'', e_type := ''DmeTest'', e_id := 11, e_datamodels := [0],
                 e_attrs := [(''value'', VInt 42)]\<rparr>),
     dms = (\<lambda>_. dm0)(0 := dm0\<lparr>dm_elements := [0, 1], dm_root := Some 0\<rparr>),
     next_elem = 2\<rparr>"

subsection \<open>The wire format of strings\<close>

text \<open>
  What the binary encodings hold for strings: NUL-terminated strings one after the other,
  an index into the dictionary (in the width of \<^verbatim>\<open>indice_size\<close>), the table of the
  dictionary (the count in the width of \<^verbatim>\<open>length_size\<close>, then the entries), and a
  name or string value, which is inline before version 4 and an index from version 4 on.
\<close>

definition nul_terminated :: "string list \<Rightarrow> byte list" where
  "nul_terminated ss = concat (map (\<lambda>s. str_bytes s @ [0]) ss)"

definition no_nul :: "string \<Rightarrow> bool" where
  "no_nul s = (CHR 0x00 \<notin> set s)"




text \<open>A dictionary for the strings of the example graph, and the DataModel of the
  example while it is written in the binary encoding of a given version.\<close>

definition kid_strings :: "string list" where
  "kid_strings = [''DmElement'', ''root'', ''child'', ''kid'', ''DmeTest'', ''value'']"

definition kid_dict :: "int \<Rightarrow> strdict" where
  "kid_dict v = (StringDictionary_new ''binary'' v)\<lparr>sd_strings := kid_strings\<rparr>"


text \<open>
  DataModel 0 with two elements of the same id: \<^verbatim>\<open>root\<close> holds \<^verbatim>\<open>a\<close> (id 5) and
  \<^verbatim>\<open>b\<close> (id 5), and \<^verbatim>\<open>b\<close> holds \<^verbatim>\<open>c\<close>, as after
  \<^verbatim>\<open>add_element\<close> was called twice with one id.
\<close>

definition heap_dup :: heap where
  "heap_dup = \<lparr>elems = (\<lambda>_. elem0)
      (0 := elem0\<lparr>e_name := ''root'', e_id := 1, e_datamodels := [0],
                 e_attrs := [(''x'', VElement 1), (''y'', VElement 2)]\<rparr>,
       1 := elem0\<lparr>e_name := ''a'', e_id := 5, e_datamodels := [0],
                 e_attrs := [(''p'', VInt 1)]\<rparr>,
       2 := elem0\<lparr>e_name := ''b'', e_id := 5, e_datamodels := [0],
                 e_attrs := [(''z'', VElement 3)]\<rparr>,
       3 := elem0\<lparr>e_name := ''c'', e_id := 7, e_datamodels := [0]\<rparr>),
     dms = (\<lambda>_. dm0)(0 := dm0\<lparr>dm_elements := [0, 1, 2, 3], dm_root := Some 0\<rparr>),
     next_elem = 4\<rparr>"




text \<open>A file whose header names version 6 of the binary encoding, followed by five
  more bytes.\<close>

definition unsupported_file :: "byte list" where
  "unsupported_file =
     str_bytes ''<!-- dmx encoding binary 6 format model 1 -->'' @ [10, 0, 1, 2, 3]"

text \<open>Files: an earlier export at the path \<^verbatim>\<open>out.dmx\<close>, and every path can be opened.\<close>

definition files0 :: filesys where
  "files0 = \<lparr>fs_files = (\<lambda>_. None)(''out.dmx'' := Some (BytesIO [1, 2, 3])), fs_writable = (\<lambda>_. True)\<rparr>"

text \<open>An instance of the library functions, for the examples.\<close>

definition lib0 :: pylib where
  "lib0 = \<lparr>pack_f = (\<lambda>x. Inr [0, 0, 0, 0]), unpack_f = (\<lambda>b. 0),
           format_10f = (\<lambda>x. ''0.0000000000''), float_str = (\<lambda>x. ''0.0''),
           set_order = remdups, uuid_of_hex = (\<lambda>s. Inl ValueError)\<rparr>"

section \<open>Properties\<close>

subsection \<open>Evaluation on numerals\<close>

lemma le_bytes_numeral:
  "le_bytes (numeral k) v = of_nat (v mod 256) # le_bytes (pred_numeral k) (v div 256)"
proof -
  have "le_bytes (Suc (pred_numeral k)) v = of_nat (v mod 256) # le_bytes (pred_numeral k) (v div 256)"
    by (rule le_bytes.simps)
  then show ?thesis by (simp only: numeral_eq_Suc)
qed

lemma digits_of_numeral:
  "digits_of base (numeral k) v =
     digits_of base (pred_numeral k) (v div base) @ [(''0123456789abcdef'') ! (v mod base)]"
  by (simp add: numeral_eq_Suc)

lemma num_digits_numeral:
  "num_digits (numeral k) v = (if v < 10 then 1 else Suc (num_digits (pred_numeral k) (v div 10)))"
proof -
  have "num_digits (Suc (pred_numeral k)) v
          = (if v < 10 then 1 else Suc (num_digits (pred_numeral k) (v div 10)))"
    by (rule num_digits.simps)
  then show ?thesis by (simp only: numeral_eq_Suc)
qed

subsection \<open>Supported encodings\<close>

lemma check_support_iff:
  "check_support encoding ver = None \<longleftrightarrow>
     (encoding = ''binary'' \<and> ver \<in> {1, 2, 3, 4, 5}) \<or> (encoding = ''keyvalues2'' \<and> ver = 1)
     \<or> (encoding = ''binary_proto'' \<and> ver = 2)"
  by (auto simp: check_support_def list_support_def split: option.splits if_splits)

lemma check_support_cases:
  "check_support encoding ver = None \<or> check_support encoding ver = Some ValueError"
  by (auto simp: check_support_def split: option.splits)

lemma unsupported_file_header:
  "read_header unsupported_file
     = (Inr ''<!-- dmx encoding binary 6 format model 1 -->'', [10, 0, 1, 2, 3])"
  by (simp add: unsupported_file_def str_bytes_def char_of_eq_iff)

lemma unsupported_file_parse:
  "parse_header ''<!-- dmx encoding binary 6 format model 1 -->'' = Inr (''binary'', 6, ''model'', 1)"
  by (simp add: parse_header_def findall_def header_format_regex_def is_space_def is_digit_def
        int_of_digits_def)

lemma unsupported_file_load:
  "load_prologue unsupported_file = (Inl ValueError, [10, 0, 1, 2, 3])"
  by (simp add: load_prologue_def unsupported_file_header unsupported_file_parse
        check_support_def list_support_def)

lemma byte_of_char_of: "unat b < 128 \<Longrightarrow> (of_nat (of_char (char_of (unat b) :: char)) :: byte) = b"
  by simp

lemma read_header_consumed:
  "read_header in_file = (res, rest) \<Longrightarrow>
     length rest \<le> length in_file
     \<and> (\<forall>header. res = Inr header \<longrightarrow> header \<noteq> [] \<and> in_file = str_bytes header @ rest)"
proof (induction in_file arbitrary: res rest)
  case Nil
  then show ?case by auto
next
  case (Cons b bs)
  show ?case
  proof (cases "128 \<le> unat b")
    case True
    with Cons.prems show ?thesis by auto
  next
    case small: False
    then have b: "(of_nat (of_char (char_of (unat b) :: char)) :: byte) = b"
      by (intro byte_of_char_of) simp
    show ?thesis
    proof (cases "char_of (unat b) = CHR ''>''")
      case True
      with small Cons.prems b show ?thesis
        by (auto simp: str_bytes_def)
    next
      case False
      obtain res' rest' where rec: "read_header bs = (res', rest')"
        by (cases "read_header bs")
      from Cons.IH [OF rec] small False Cons.prems rec b show ?thesis
        by (cases res') (auto simp: str_bytes_def)
    qed
  qed
qed

text \<open>
  C8, as the code has it. \<^verbatim>\<open>check_support\<close> accepts exactly binary 1 to 5,
  keyvalues2 1 and binary_proto 2. For any other pair \<^verbatim>\<open>echo\<close> raises ValueError
  with nothing written, leaving the store as it was; \<^verbatim>\<open>write\<close>, which opens the file
  before it calls \<^verbatim>\<open>echo\<close>, raises ValueError with no byte written to the file, which it
  leaves empty at the path, whatever was there before; \<^verbatim>\<open>load\<close>, which learns the pair
  from the header of the file, raises ValueError once it has read the bytes of the
  header (there is at least one), with every byte after the header still unread.
\<close>

theorem unsupported_pair_rejected:
  "(check_support encoding ver = None \<longleftrightarrow>
       (encoding = ''binary'' \<and> ver \<in> {1, 2, 3, 4, 5}) \<or> (encoding = ''keyvalues2'' \<and> ver = 1)
       \<or> (encoding = ''binary_proto'' \<and> ver = 2))
   \<and> (check_support encoding ver \<noteq> None \<longrightarrow>
        check_support encoding ver = Some ValueError
        \<and> echo L n dm encoding ver h = (Inl ValueError, h)
        \<and> (fs_writable fs path \<longrightarrow>
             DataModel_write_path L n dm path encoding ver (h, fs)
               = (Some ValueError,
                  (h, fs\<lparr>fs_files := (fs_files fs)(path :=
                         Some (if encoding \<in> {''binary'', ''binary_proto''} then BytesIO []
                               else StringIO []))\<rparr>)))
        \<and> (read_header in_file = (Inr header, rest)
             \<and> parse_header header = Inr (encoding, ver, fmt, fver)
            \<longrightarrow> load_prologue in_file = (Inl ValueError, rest)
                \<and> in_file = str_bytes header @ rest \<and> header \<noteq> []))"
proof -
  have sup: "check_support encoding ver = None \<longleftrightarrow>
       (encoding = ''binary'' \<and> ver \<in> {1, 2, 3, 4, 5}) \<or> (encoding = ''keyvalues2'' \<and> ver = 1)
       \<or> (encoding = ''binary_proto'' \<and> ver = 2)"
    by (rule check_support_iff)
  have rej: "check_support encoding ver = Some ValueError" if "check_support encoding ver \<noteq> None"
    using that check_support_cases [of encoding ver] by auto
  have e: "echo L n dm encoding ver h = (Inl ValueError, h)" if "check_support encoding ver \<noteq> None"
    using rej [OF that] by (simp add: echo_def)
  have w: "DataModel_write_path L n dm path encoding ver (h, fs)
               = (Some ValueError,
                  (h, fs\<lparr>fs_files := (fs_files fs)(path :=
                         Some (if encoding \<in> {''binary'', ''binary_proto''} then BytesIO []
                               else StringIO []))\<rparr>))"
    if "check_support encoding ver \<noteq> None" "fs_writable fs path"
    using e [OF that(1)] that(2) by (simp add: DataModel_write_path_def)
  have l: "load_prologue in_file = (Inl ValueError, rest)
             \<and> in_file = str_bytes header @ rest \<and> header \<noteq> []"
    if "check_support encoding ver \<noteq> None" "read_header in_file = (Inr header, rest)"
      "parse_header header = Inr (encoding, ver, fmt, fver)"
    using rej [OF that(1)] that(2,3) read_header_consumed [OF that(2)]
    by (simp add: load_prologue_def)
  show ?thesis
    using sup rej e w l by blast
qed

theorem unsupported_pair_rejected_witness:
  "check_support ''binary'' 6 = Some ValueError
   \<and> echo lib0 100 0 ''binary'' 6 heap_kid = (Inl ValueError, heap_kid)
   \<and> DataModel_write_path lib0 100 0 ''out.dmx'' ''binary'' 6 (heap_kid, files0)
       = (Some ValueError, (heap_kid, files0\<lparr>fs_files := (fs_files files0)(''out.dmx'' := Some (BytesIO []))\<rparr>))
   \<and> load_prologue unsupported_file = (Inl ValueError, [10, 0, 1, 2, 3])"
proof -
  have "check_support ''binary'' 6 \<noteq> None"
    by (simp add: check_support_iff)
  moreover have "fs_writable files0 ''out.dmx''"
    by (simp add: files0_def)
  moreover note unsupported_pair_rejected [of "''binary''" 6 lib0 100 0 heap_kid files0 "''out.dmx''"
      unsupported_file "''<!-- dmx encoding binary 6 format model 1 -->''" "[10, 0, 1, 2, 3]"
      "''model''" 1]
    unsupported_file_header unsupported_file_parse
  ultimately show ?thesis by simp
qed

text \<open>
  C8 as stated fails on the read path: for a file whose header names binary version 6,
  \<^verbatim>\<open>load\<close> raises ValueError only after the header has been read from the file.
\<close>

theorem load_reads_header_before_rejecting:
  "fst (load_prologue unsupported_file) = Inl ValueError
   \<and> length (snd (load_prologue unsupported_file)) < length unsupported_file"
  by (simp add: unsupported_file_load, simp add: unsupported_file_def str_bytes_def)

subsection \<open>Writing binary_proto\<close>

text \<open>
  C1 at the failing input: \<^verbatim>\<open>echo("binary_proto", 2)\<close> of the example graph
  raises AttributeError. \<^verbatim>\<open>echo\<close> makes the string dictionary for the encoding
  \<^verbatim>\<open>binary\<close> only, and \<^verbatim>\<open>_write_element_index\<close> writes the type of the root through
  \<^verbatim>\<open>self._string_dict\<close>, which is unset.
\<close>

theorem echo_binary_proto_raises:
  "fst (echo L 100 0 ''binary_proto'' 2 heap_kid) = Inl PyAttributeError"
  by code_simp

subsection \<open>Strings in the binary encodings\<close>

lemma length_le_bytes [simp]: "length (le_bytes k v) = k"
  by (induction k arbitrary: v) auto

lemma le_nat_le_bytes: "le_nat (le_bytes k v) = v mod 256 ^ k"
proof (induction k arbitrary: v)
  case 0
  then show ?case by simp
next
  case (Suc k)
  have "unat (of_nat (v mod 256) :: byte) = v mod 256"
    by (simp add: unat_of_nat)
  then have "le_nat (le_bytes (Suc k) v) = v mod 256 + 256 * (v div 256 mod 256 ^ k)"
    by (simp add: Suc.IH)
  also have "\<dots> = v mod (256 * 256 ^ k)"
    by (simp add: mod_mult2_eq)
  finally show ?case by simp
qed

lemma pack_i_nat: "n < 2 ^ 31 \<Longrightarrow> pack_i (int n) = Inr (le_bytes 4 n)"
  by (simp add: pack_i_def)

lemma get_int_le_bytes: "n < 2 ^ 31 \<Longrightarrow> get_int (le_bytes 4 n @ rest) = Inr (int n, rest)"
  by (simp add: get_int_def unpack_i_def le_nat_le_bytes)



lemma get_str_str_bytes:
  "ascii s \<Longrightarrow> CHR 0x00 \<notin> set s \<Longrightarrow> get_str (str_bytes s @ 0 # rest) = Inr (s, rest)"
proof (induction s)
  case Nil
  then show ?case by (simp add: str_bytes_def)
next
  case (Cons c s)
  then have lt: "(of_char c :: nat) < 128" and nz: "c \<noteq> CHR 0x00" and s: "ascii s" "CHR 0x00 \<notin> set s"
    by (auto simp: ascii_def)
  have u: "unat (of_nat (of_char c) :: byte) = of_char c"
    using lt by (simp add: unat_of_nat)
  have "(of_char (CHR 0x00) :: nat) = 0"
    by simp
  then have "(of_char c :: nat) \<noteq> 0"
    using nz of_char_eq_iff [of c "CHR 0x00", where ?'a = nat] by metis
  then have "(of_nat (of_char c) :: byte) \<noteq> 0"
    using u by (metis unat_0)
  then show ?case
    using Cons.IH [OF s] u lt by (simp add: str_bytes_def)
qed

lemma out_write_BytesIO [simp]:
  "out_write bs (self\<lparr>dm_out := BytesIO out\<rparr>) = (None, self\<lparr>dm_out := BytesIO (out @ bs)\<rparr>)"
  by (simp add: out_write_def)


lemma foreach_write_strs:
  "list_all ascii ss \<Longrightarrow>
   foreach (\<lambda>item. write_scalar L E item True) (map VStr ss) (self\<lparr>dm_out := BytesIO out\<rparr>)
     = (None, self\<lparr>dm_out := BytesIO (out @ nul_terminated ss)\<rparr>)"
  by (induction ss arbitrary: out)
     (simp_all add: nul_terminated_def write_str_def out_write_packed_def encode_binary_string_def)


lemma read_array_items_strs:
  "list_all ascii ss \<Longrightarrow> list_all no_nul ss \<Longrightarrow>
   read_array_items L encoding_ver d dm DStr (length ss) (h, nul_terminated ss @ rest)
     = Inr (map VStr ss, h, rest)"
proof (induction ss)
  case Nil
  then show ?case by (simp add: nul_terminated_def)
next
  case (Cons s ss)
  then have "get_str (str_bytes s @ 0 # (nul_terminated ss @ rest)) = Inr (s, nul_terminated ss @ rest)"
    by (intro get_str_str_bytes) (auto simp: no_nul_def)
  with Cons show ?case
    by (simp add: nul_terminated_def get_value_def)
qed

text \<open>
  C3. For strings that are ASCII and hold no NUL, \<^verbatim>\<open>_write\<close> of a string array
  appends the int32 length and then each string inline, NUL-terminated, whatever the
  encoding version, the \<^verbatim>\<open>suppress_dict\<close> flag and the dictionary of the DataModel
  are; and the reader's loop over the items of a string array reads them back inline, for
  every version and dictionary.
\<close>

theorem string_array_written_inline:
  assumes "list_all ascii ss" and "list_all no_nul ss" and "length ss < 2 ^ 31"
  shows "DataModel_write L E (VStrArray ss) suppress_dict (self\<lparr>dm_out := BytesIO out\<rparr>)
           = (None, self\<lparr>dm_out := BytesIO (out @ le_bytes 4 (length ss) @ nul_terminated ss)\<rparr>)
         \<and> get_int (le_bytes 4 (length ss) @ nul_terminated ss @ rest)
             = Inr (int (length ss), nul_terminated ss @ rest)
         \<and> read_array_items L encoding_ver d dm DStr (length ss) (h, nul_terminated ss @ rest)
             = Inr (map VStr ss, h, rest)"
proof (intro conjI)
  show "DataModel_write L E (VStrArray ss) suppress_dict (self\<lparr>dm_out := BytesIO out\<rparr>)
           = (None, self\<lparr>dm_out := BytesIO (out @ le_bytes 4 (length ss) @ nul_terminated ss)\<rparr>)"
    using assms(1,3) foreach_write_strs [OF assms(1), where L = L and E = E and self = self
        and out = "out @ le_bytes 4 (length ss)"]
    by (simp add: DataModel_write_def and_then_def out_write_packed_def pack_i_nat)
  show "get_int (le_bytes 4 (length ss) @ nul_terminated ss @ rest)
             = Inr (int (length ss), nul_terminated ss @ rest)"
    using assms(3) by (rule get_int_le_bytes)
  show "read_array_items L encoding_ver d dm DStr (length ss) (h, nul_terminated ss @ rest)
             = Inr (map VStr ss, h, rest)"
    using assms(1,2) by (rule read_array_items_strs)
qed

theorem string_array_written_inline_witness:
  "DataModel_write lib0 (elems heap_kid) (VStrArray [''ab'', ''c'']) False (dm0\<lparr>dm_out := BytesIO []\<rparr>)
     = (None, dm0\<lparr>dm_out := BytesIO [2, 0, 0, 0, 97, 98, 0, 99, 0]\<rparr>)
   \<and> get_int ([2, 0, 0, 0, 97, 98, 0, 99, 0] @ [7]) = Inr (2, [97, 98, 0, 99, 0, 7])
   \<and> read_array_items lib0 5 (kid_dict 5) 0 DStr 2 (heap_kid, [97, 98, 0, 99, 0, 7])
       = Inr ([VStr ''ab'', VStr ''c''], heap_kid, [7])"
proof -
  have a: "list_all ascii [''ab'', ''c'']" "list_all no_nul [''ab'', ''c'']"
    "length [''ab'', ''c''] < 2 ^ 31"
    by (simp_all add: ascii_def no_nul_def)
  have len: "length [''ab'', ''c''] = 2"
    by simp
  have b: "le_bytes 4 2 = [2, 0, 0, 0]" "nul_terminated [''ab'', ''c''] = [97, 98, 0, 99, 0]"
    by (simp_all add: nul_terminated_def str_bytes_def le_bytes_numeral)
  note w = string_array_written_inline [OF a, where L = lib0 and E = "elems heap_kid" and suppress_dict = False and self = dm0
      and out = "[]" and rest = "[7]" and encoding_ver = 5 and d = "kid_dict 5" and dm = 0
      and h = heap_kid]
  show ?thesis
    using w unfolding len b by simp
qed















lemma length_uuid_bytes [simp]: "length (uuid_bytes u) = 16"
  by (simp add: uuid_bytes_def)


















subsection \<open>The counting pass\<close>

lemma foreach_append:
  "foreach f (xs @ ys) s =
     (case foreach f xs s of (Some err, s') \<Rightarrow> (Some err, s') | (None, s') \<Rightarrow> foreach f ys s')"
  by (induction xs arbitrary: s) (auto split: prod.splits option.splits)

lemma count_attr_slots:
  "count_attr rec v st = foreach (count_slot rec) (slot_targets v) st"
  by (cases v) (auto simp: count_attr_def split: prod.splits option.splits)

lemma foreach_count_attr:
  "foreach (count_attr rec) vs st = foreach (count_slot rec) (concat (map slot_targets vs)) st"
  by (induction vs arbitrary: st)
     (auto simp: foreach_append count_attr_slots split: prod.splits option.splits)

lemma same_graph_incr: "same_graph E0 h \<Longrightarrow> same_graph E0 (incr_users a h)"
  by (simp add: same_graph_def incr_users_def)

lemma users_incr:
  "e_users (elems (incr_users a h) e) = e_users (elems h e) + (if e = a then 1 else 0)"
  by (simp add: incr_users_def)

lemma elem_in_iff:
  assumes "same_graph E0 h" "inj_on (\<lambda>e. e_id (E0 e)) R" "a \<in> R" "set out \<subseteq> R"
  shows "elem_in (elems h) a out \<longleftrightarrow> a \<in> set out"
proof -
  have "elem_matches (elems h) a x \<longleftrightarrow> x = a" if "x \<in> set out" for x
  proof -
    have "e_id (E0 x) = e_id (E0 a) \<Longrightarrow> x = a"
      using assms(2,3,4) that by (auto dest: inj_onD)
    then show ?thesis
      using assms(1) by (auto simp: elem_matches_def Element_eq_def same_graph_def)
  qed
  then show ?thesis
    by (auto simp: elem_in_def list_ex_iff)
qed

lemma loop_ok:
  assumes rec: "visit_ok E0 R k rec" and fin: "finite R" and inj: "inj_on (\<lambda>e. e_id (E0 e)) R"
  shows "same_graph E0 h \<Longrightarrow> set ts \<subseteq> R \<Longrightarrow> set out \<subseteq> R \<Longrightarrow> distinct out
         \<Longrightarrow> card (R - set out) \<le> k \<Longrightarrow>
         \<exists>h' new. foreach (count_slot rec) ts (h, out) = (None, (h', out @ new))
           \<and> post E0 R out h' new \<and> set ts \<subseteq> set (out @ new)
           \<and> (\<forall>e. e_users (elems h' e)
                  = e_users (elems h e) + count_list ts e + (\<Sum>x\<leftarrow>new. count_list (slots E0 x) e))"
proof (induction ts arbitrary: h out)
  case Nil
  then show ?case
    by (intro exI [of _ h] exI [of _ "[]"]) (simp add: post_def)
next
  case (Cons a ts)
  have aR: "a \<in> R" and tsR: "set ts \<subseteq> R"
    using Cons.prems(2) by auto
  show ?case
  proof (cases "a \<in> set out")
    case True
    then have ein: "elem_in (elems h) a out"
      using elem_in_iff [OF Cons.prems(1) inj aR Cons.prems(3)] by simp
    obtain h' new where
      r: "foreach (count_slot rec) ts (incr_users a h, out) = (None, (h', out @ new))"
      and p: "post E0 R out h' new" and s: "set ts \<subseteq> set (out @ new)"
      and u: "\<And>e. e_users (elems h' e) = e_users (elems (incr_users a h) e) + count_list ts e
                 + (\<Sum>x\<leftarrow>new. count_list (slots E0 x) e)"
      using Cons.IH [OF same_graph_incr [OF Cons.prems(1)] tsR Cons.prems(3,4,5)] by blast
    have step: "count_slot rec a (h, out) = (None, (incr_users a h, out))"
      using ein by (simp add: count_slot_def)
    show ?thesis
      using step r p s u True
      by (intro exI [of _ h'] exI [of _ new]) (auto simp: users_incr)
  next
    case False
    then have ein: "\<not> elem_in (elems h) a out"
      using elem_in_iff [OF Cons.prems(1) inj aR Cons.prems(3)] by simp
    obtain h1 new1 where
      r1: "rec a (h, out) = (None, (h1, out @ new1))" and p1: "post E0 R out h1 new1"
      and a1: "a \<in> set new1"
      and u1: "\<And>e. e_users (elems h1 e) = e_users (elems h e) + (\<Sum>x\<leftarrow>new1. count_list (slots E0 x) e)"
      using rec Cons.prems(1,3,4,5) aR False unfolding visit_ok_def by blast
    have sg: "same_graph E0 (incr_users a h1)"
      using p1 by (simp add: post_def same_graph_incr)
    have sub: "set (out @ new1) \<subseteq> R" and dist: "distinct (out @ new1)"
      using p1 Cons.prems(3) by (auto simp: post_def)
    have "card (R - set (out @ new1)) \<le> card (R - set out)"
      using fin by (intro card_mono) auto
    then have c: "card (R - set (out @ new1)) \<le> k"
      using Cons.prems(5) by simp
    obtain h' new2 where
      r2: "foreach (count_slot rec) ts (incr_users a h1, out @ new1) = (None, (h', (out @ new1) @ new2))"
      and p2: "post E0 R (out @ new1) h' new2" and s2: "set ts \<subseteq> set ((out @ new1) @ new2)"
      and u2: "\<And>e. e_users (elems h' e) = e_users (elems (incr_users a h1) e) + count_list ts e
                 + (\<Sum>x\<leftarrow>new2. count_list (slots E0 x) e)"
      using Cons.IH [OF sg tsR sub dist c] by blast
    have p: "post E0 R out h' (new1 @ new2)"
      using p1 p2 by (auto simp: post_def)
    have step: "count_slot rec a (h, out) = (None, (incr_users a h1, out @ new1))"
      using ein r1 by (simp add: count_slot_def)
    show ?thesis
      using step r2 p s2 a1 u1 u2
      by (intro exI [of _ h'] exI [of _ "new1 @ new2"]) (auto simp: users_incr)
  qed
qed

lemma visit_ok_count:
  assumes fin: "finite R" and inj: "inj_on (\<lambda>e. e_id (E0 e)) R"
    and closed: "\<forall>x\<in>R. set (slots E0 x) \<subseteq> R"
  shows "visit_ok E0 R n (count_child_elems n)"
proof (induction n)
  case 0
  show ?case
    unfolding visit_ok_def
  proof (intro allI impI)
    fix a h out
    assume "same_graph E0 h \<and> a \<in> R \<and> set out \<subseteq> R \<and> distinct out \<and> a \<notin> set out
          \<and> card (R - set out) \<le> 0"
    then have "a \<in> R - set out" "card (R - set out) = 0"
      by auto
    then have False
      using fin by auto
    then show "\<exists>h' new. count_child_elems 0 a (h, out) = (None, h', out @ new) \<and> post E0 R out h' new
           \<and> a \<in> set new
           \<and> (\<forall>e. e_users (elems h' e)
                  = e_users (elems h e) + (\<Sum>x\<leftarrow>new. count_list (slots E0 x) e))"
      by simp
  qed
next
  case (Suc n)
  show ?case
    unfolding visit_ok_def
  proof (intro allI impI)
    fix a h out
    assume pre: "same_graph E0 h \<and> a \<in> R \<and> set out \<subseteq> R \<and> distinct out \<and> a \<notin> set out
          \<and> card (R - set out) \<le> Suc n"
    then have sg: "same_graph E0 h" and aR: "a \<in> R" and outR: "set out \<subseteq> R"
      and dist: "distinct out" and notin: "a \<notin> set out" and c: "card (R - set out) \<le> Suc n"
      by auto
    have ts: "concat (map (slot_targets \<circ> snd) (e_attrs (elems h a))) = slots E0 a"
      using sg by (simp add: slots_def same_graph_def comp_def)
    have tsR: "set (slots E0 a) \<subseteq> R"
      using closed aR by blast
    have "R - set (out @ [a]) = (R - set out) - {a}"
      by auto
    moreover have "a \<in> R - set out"
      using aR notin by simp
    ultimately have "card (R - set (out @ [a])) = card (R - set out) - 1"
      using fin by simp
    then have c': "card (R - set (out @ [a])) \<le> n"
      using c by simp
    have outR': "set (out @ [a]) \<subseteq> R" and dist': "distinct (out @ [a])"
      using outR aR dist notin by auto
    obtain h' new where
      r: "foreach (count_slot (count_child_elems n)) (slots E0 a) (h, out @ [a])
            = (None, (h', (out @ [a]) @ new))"
      and p: "post E0 R (out @ [a]) h' new" and s: "set (slots E0 a) \<subseteq> set ((out @ [a]) @ new)"
      and u: "\<And>e. e_users (elems h' e) = e_users (elems h e) + count_list (slots E0 a) e
                 + (\<Sum>x\<leftarrow>new. count_list (slots E0 x) e)"
      using loop_ok [OF Suc.IH fin inj sg tsR outR' dist' c'] by blast
    have run: "count_child_elems (Suc n) a (h, out) = (None, (h', out @ (a # new)))"
      using r by (simp add: foreach_count_attr ts)
    have p': "post E0 R out h' (a # new)"
      using p s aR by (auto simp: post_def)
    show "\<exists>h' new. count_child_elems (Suc n) a (h, out) = (None, h', out @ new) \<and> post E0 R out h' new
           \<and> a \<in> set new
           \<and> (\<forall>e. e_users (elems h' e)
                  = e_users (elems h e) + (\<Sum>x\<leftarrow>new. count_list (slots E0 x) e))"
      using run p' u by (intro exI [of _ h'] exI [of _ "a # new"]) simp
  qed
qed

lemma reachable_closed: "x \<in> reachable E r \<Longrightarrow> set (slots E x) \<subseteq> reachable E r"
  by (auto simp: reachable_def intro: rtrancl_into_rtrancl)

lemma reachable_root: "r \<in> reachable E r"
  by (simp add: reachable_def)

lemma reachable_least:
  assumes "r \<in> S" "\<forall>x\<in>S. set (slots E x) \<subseteq> S"
  shows "reachable E r \<subseteq> S"
proof
  fix e
  assume "e \<in> reachable E r"
  then have "(r, e) \<in> {(a, b). b \<in> set (slots E a)}\<^sup>*"
    by (simp add: reachable_def)
  then show "e \<in> S"
    by (induction rule: rtrancl_induct) (use assms in auto)
qed

lemma reset_users_elems:
  "elems (reset_users es h) r
     = (if r \<in> set es then (elems h r)\<lparr>e_users := 0\<rparr> else elems h r)"
  unfolding reset_users_def
  by (induction es arbitrary: h rule: rev_induct) auto

lemma reset_users_dms [simp]: "dms (reset_users es h) = dms h"
  unfolding reset_users_def
  by (induction es arbitrary: h rule: rev_induct) auto

lemma count_child_elems_numeral:
  "count_child_elems (numeral k) elem st =
     foreach (count_attr (count_child_elems (pred_numeral k))) (map snd (e_attrs (elems (fst st) elem)))
       (fst st, snd st @ [elem])"
  by (simp add: numeral_eq_Suc)

text \<open>
  C5, as the code has it. Let the elements reachable from the root be finitely many, no
  two of them with the same id, and no more than the depth the recursion may reach.
  Then the counting pass returns; \<^verbatim>\<open>out_elems\<close> lists the reachable elements, each
  once; every element of the DataModel's element list ends with \<^verbatim>\<open>_users\<close> equal to
  the number of slots of reachable elements whose value it is; an element outside
  that list is not reset, its counter grows by that number; and no attribute changes.
\<close>

theorem count_pass_users:
  assumes root: "dm_root (dms h dm) = Some r"
    and fin: "finite (reachable (elems h) r)"
    and inj: "inj_on (\<lambda>e. e_id (elems h e)) (reachable (elems h) r)"
    and depth: "card (reachable (elems h) r) \<le> n"
  shows "\<exists>h' out. count_pass n dm h = (None, (h', out)) \<and> distinct out
           \<and> set out = reachable (elems h) r
           \<and> (\<forall>e. e_users (elems h' e)
                  = (if e \<in> set (dm_elements (dms h dm)) then 0 else e_users (elems h e))
                    + slot_count (elems h) (reachable (elems h) r) e)
           \<and> (\<forall>e. e_attrs (elems h' e) = e_attrs (elems h e))"
proof -
  let ?E = "elems h" and ?R = "reachable (elems h) r"
  let ?h0 = "reset_users (dm_elements (dms h dm)) h"
  have sg: "same_graph ?E ?h0"
    by (simp add: same_graph_def reset_users_elems)
  have closed: "\<forall>x\<in>?R. set (slots ?E x) \<subseteq> ?R"
    using reachable_closed by blast
  have "visit_ok ?E ?R n (count_child_elems n)"
    using fin inj closed by (rule visit_ok_count)
  moreover have "same_graph ?E ?h0 \<and> r \<in> ?R \<and> set [] \<subseteq> ?R \<and> distinct ([] :: eref list)
      \<and> r \<notin> set [] \<and> card (?R - set []) \<le> n"
    using sg depth by (simp add: reachable_root)
  ultimately obtain h' new where
    run: "count_child_elems n r (?h0, []) = (None, (h', [] @ new))"
    and p: "post ?E ?R [] h' new" and rn: "r \<in> set new"
    and u: "\<And>e. e_users (elems h' e)
               = e_users (elems ?h0 e) + (\<Sum>x\<leftarrow>new. count_list (slots ?E x) e)"
    unfolding visit_ok_def by blast
  have dist: "distinct new" and sub: "set new \<subseteq> ?R"
    and cl: "\<forall>x\<in>set new. set (slots ?E x) \<subseteq> set new"
    using p by (auto simp: post_def)
  have "?R \<subseteq> set new"
    using rn cl by (rule reachable_least)
  with sub have eq: "set new = ?R"
    by auto
  have sum: "(\<Sum>x\<leftarrow>new. count_list (slots ?E x) e) = slot_count ?E ?R e" for e
    using dist eq by (simp add: slot_count_def sum_list_distinct_conv_sum_set)
  have attrs: "e_attrs (elems h' e) = e_attrs (elems h e)" for e
    using p by (simp add: post_def same_graph_def)
  have "count_pass n dm h = (None, (h', new))"
    using run root by (simp add: count_pass_def)
  then show ?thesis
    using dist eq u sum attrs
    by (intro exI [of _ h'] exI [of _ new]) (simp add: reset_users_elems)
qed

lemma reachable_kid: "reachable (elems heap_kid) 0 = {0, 1}"
proof
  show "reachable (elems heap_kid) 0 \<subseteq> {0, 1}"
    by (rule reachable_least) (auto simp: slots_def heap_kid_def elem0_def)
  have "1 \<in> set (slots (elems heap_kid) 0)"
    by (simp add: slots_def heap_kid_def elem0_def)
  then show "{0, 1} \<subseteq> reachable (elems heap_kid) 0"
    using reachable_closed [OF reachable_root, of "elems heap_kid" 0] reachable_root [of 0 "elems heap_kid"]
    by auto
qed

theorem count_pass_users_witness:
  "\<exists>h' out. count_pass 100 0 heap_kid = (None, (h', out)) \<and> distinct out
           \<and> set out = reachable (elems heap_kid) 0
           \<and> (\<forall>e. e_users (elems h' e)
                  = (if e \<in> set (dm_elements (dms heap_kid 0)) then 0 else e_users (elems heap_kid e))
                    + slot_count (elems heap_kid) (reachable (elems heap_kid) 0) e)
           \<and> (\<forall>e. e_attrs (elems h' e) = e_attrs (elems heap_kid e))"
proof -
  have root: "dm_root (dms heap_kid 0) = Some 0"
    by (simp add: heap_kid_def dm0_def)
  have fin: "finite (reachable (elems heap_kid) 0)"
    by (simp add: reachable_kid)
  have inj: "inj_on (\<lambda>e. e_id (elems heap_kid e)) (reachable (elems heap_kid) 0)"
    unfolding reachable_kid by (simp add: heap_kid_def elem0_def)
  have depth: "card (reachable (elems heap_kid) 0) \<le> 100"
    by (simp add: reachable_kid)
  show ?thesis
    by (rule count_pass_users [OF root fin inj depth])
qed

text \<open>
  C5 as stated fails when two reachable elements share an id: after \<^verbatim>\<open>a\<close> was
  visited, \<^verbatim>\<open>b\<close> counts as already in \<^verbatim>\<open>out_elems\<close> and is not visited, so the slot
  of \<^verbatim>\<open>b\<close> that holds \<^verbatim>\<open>c\<close> is never counted: \<^verbatim>\<open>c\<close> ends with 0 users.
\<close>

theorem count_pass_misses_duplicate_id:
  "fst (count_pass 100 0 heap_dup) = None
   \<and> e_users (elems (fst (snd (count_pass 100 0 heap_dup))) 3) = 0
   \<and> slots (elems heap_dup) 0 = [1, 2]
   \<and> slots (elems heap_dup) 2 = [3]"
  by (simp add: count_pass_def heap_dup_def reset_users_def elem0_def dm0_def count_attr_def
        count_slot_def elem_in_def elem_matches_def Element_eq_def truthy_def incr_users_def
        slots_def count_child_elems_numeral)

subsection \<open>Time values\<close>

lemma double_tenthousandth: "double (1 / 10000) = 7378697629483821 / 73786976294838206464"
  by code_simp

lemma Time_tobytes_tenthousandth: "Time_tobytes (double (1 / 10000)) = Inr [1, 0, 0, 0]"
  by code_simp

lemma Time_from_int_1: "Time_from_int 1 = 7378697629483821 / 73786976294838206464"
  by code_simp

lemma Time_from_int_1_close: "\<bar>Time_from_int 1 - 1 / 10000\<bar> \<le> 1 / 10000"
  by (simp add: Time_from_int_1)

lemma get_int_1: "get_int (1 # 0 # 0 # 0 # rest) = Inr (1, rest)"
  by (simp add: get_int_def unpack_i_def)

text \<open>
  C9. \<^verbatim>\<open>Time(0.0001)\<close> is the float nearest to 1/10000. Its \<^verbatim>\<open>tobytes\<close> is the
  int32 1 (bytes 1, 0, 0, 0), which is what \<^verbatim>\<open>_write\<close> appends to the output for it;
  \<^verbatim>\<open>get_value\<close> reads these bytes back as \<^verbatim>\<open>Time.from_int(1)\<close>, which differs
  from 0.0001 by at most 0.0001.
\<close>

theorem Time_tenthousandth_roundtrip:
  "Time_tobytes (double (1 / 10000)) = Inr [1, 0, 0, 0]
   \<and> DataModel_write L E (VTime (double (1 / 10000))) suppress_dict (self\<lparr>dm_out := BytesIO out\<rparr>)
       = (None, self\<lparr>dm_out := BytesIO (out @ [1, 0, 0, 0])\<rparr>)
   \<and> get_value L encoding_ver d dm DTime from_array (h, [1, 0, 0, 0] @ rest)
       = Inr (VTime (Time_from_int 1), h, rest)
   \<and> \<bar>Time_from_int 1 - 1 / 10000\<bar> \<le> 1 / 10000"
proof (intro conjI)
  show "Time_tobytes (double (1 / 10000)) = Inr [1, 0, 0, 0]"
    by (rule Time_tobytes_tenthousandth)
  show "DataModel_write L E (VTime (double (1 / 10000))) suppress_dict (self\<lparr>dm_out := BytesIO out\<rparr>)
       = (None, self\<lparr>dm_out := BytesIO (out @ [1, 0, 0, 0])\<rparr>)"
    by (simp add: Time_tobytes_tenthousandth DataModel_write_def out_write_packed_def out_write_def)
  show "get_value L encoding_ver d dm DTime from_array (h, [1, 0, 0, 0] @ rest)
       = Inr (VTime (Time_from_int 1), h, rest)"
    by (simp add: get_int_1 get_value_def)
  show "\<bar>Time_from_int 1 - 1 / 10000\<bar> \<le> 1 / 10000"
    by (rule Time_from_int_1_close)
qed


subsection \<open>What a failed import leaves behind\<close>

text \<open>
  \<^verbatim>\<open>frame h h'\<close>: from \<^verbatim>\<open>h\<close> to \<^verbatim>\<open>h'\<close> no element changed but for its set of
  datamodels, and each DataModel's element list was at most extended at its end.
\<close>

definition frame :: "heap \<Rightarrow> heap \<Rightarrow> bool" where
  "frame h h' =
     ((\<forall>r. e_attrs (elems h' r) = e_attrs (elems h r) \<and> e_id (elems h' r) = e_id (elems h r)
          \<and> e_name (elems h' r) = e_name (elems h r) \<and> e_type (elems h' r) = e_type (elems h r)
          \<and> e_is_placeholder (elems h' r) = e_is_placeholder (elems h r)
          \<and> e_users (elems h' r) = e_users (elems h r))
      \<and> (\<forall>d. prefix (dm_elements (dms h d)) (dm_elements (dms h' d))
          \<and> dm_root (dms h' d) = dm_root (dms h d)))"

lemma frame_refl: "frame h h"
  by (simp add: frame_def)

lemma frame_trans: "frame h1 h2 \<Longrightarrow> frame h2 h3 \<Longrightarrow> frame h1 h3"
  unfolding frame_def by (metis prefix_order.order_trans)

lemma frame_import_step: "frame h (add_datamodel e dm (add_to_elements dm e h))"
  by (simp add: frame_def add_datamodel_def add_to_elements_def)

lemma import_frame:
  "frame h (snd (import_element n self e h))"
  "frame h (snd (import_dms n self e ds h))"
  "frame h (snd (import_values n self vs h))"
  "frame h (snd (import_array n self arr h))"
proof (induction n self e h and n self e ds h and n self vs h and n self arr h
       rule: import_element_import_dms_import_values_import_array.induct)
  case (1 self elem h)
  then show ?case by (simp add: frame_refl)
next
  case (2 n self elem h)
  then show ?case by simp
next
  case (3 n self elem h)
  then show ?case by (simp add: frame_refl)
next
  case (4 n self elem dm rest h)
  show ?case
  proof (cases "dm \<in> set (e_datamodels (elems h elem))")
    case True
    with 4 show ?thesis by simp
  next
    case notin: False
    show ?thesis
    proof (cases "list_ex (\<lambda>dm_e. e_id (elems h dm_e) = e_id (elems h elem)) (dm_elements (dms h dm))")
      case True
      with notin show ?thesis by (simp add: frame_refl)
    next
      case False
      let ?h2 = "add_datamodel elem dm (add_to_elements dm elem h)"
      obtain r h3 where r: "import_values n self (map snd (e_attrs (elems h elem))) ?h2 = (r, h3)"
        by (cases "import_values n self (map snd (e_attrs (elems h elem))) ?h2")
      have f3: "frame h h3"
        using "4.IH"(2) [OF notin False] r frame_import_step [of h elem dm]
        by (auto intro: frame_trans)
      show ?thesis
      proof (cases r)
        case None
        with "4.IH"(3) [OF notin False] r have "frame h3 (snd (import_dms n self elem rest h3))"
          by simp
        with f3 notin False r None show ?thesis
          by (auto intro: frame_trans)
      next
        case (Some err)
        with f3 notin False r show ?thesis by simp
      qed
    qed
  qed
next
  case (5 n self h)
  then show ?case by (simp add: frame_refl)
next
  case (6 n self v vs h)
  let ?r = "(case v of VElement a \<Rightarrow> import_element n self a h
            | VElementArray arr \<Rightarrow> import_array n self arr h
            | _ \<Rightarrow> (None, h))"
  obtain r h1 where r: "?r = (r, h1)"
    by (cases ?r)
  have f1: "frame h h1"
    using "6.IH"(1,2) r by (cases v) (auto simp: frame_refl)
  show ?case
  proof (cases r)
    case None
    with "6.IH"(3) r have "frame h1 (snd (import_values n self vs h1))"
      by simp
    with f1 r None show ?thesis by (auto intro: frame_trans)
  next
    case (Some err)
    with f1 r show ?thesis by simp
  qed
next
  case (7 n self h)
  then show ?case by (simp add: frame_refl)
next
  case (8 n self arr_elem arr h)
  obtain r h1 where r: "import_element n self arr_elem h = (r, h1)"
    by (cases "import_element n self arr_elem h")
  have f1: "frame h h1"
    using "8.IH"(1) r by simp
  show ?case
  proof (cases r)
    case None
    with "8.IH"(2) r have "frame h1 (snd (import_array n self arr h1))"
      by simp
    with f1 r None show ?thesis by (auto intro: frame_trans)
  next
    case (Some err)
    with f1 r show ?thesis by simp
  qed
qed

lemma partial_import_eval:
  "fst (Element_setitem 100 0 ''x'' (VElement 2) heap_partial) = Some IDCollisionError
   \<and> dm_elements (dms (snd (Element_setitem 100 0 ''x'' (VElement 2) heap_partial)) 0) = [0, 1, 2]
   \<and> dm_elements (dms heap_partial 0) = [0, 1]"
  by (simp add: Element_setitem_def heap_partial_def elem0_def dm0_def add_datamodel_def
        add_to_elements_def numeral_nat)

text \<open>
  C7, as the code has it. When an attribute assignment \<^verbatim>\<open>self[key] = item\<close> raises
  (an ID collision, a value that is no attribute type, or the stack running out during
  the import), no element's attributes have changed, and every DataModel's element list
  still starts with the elements it had: the import is not undone, so the elements
  imported before the failure stay appended to the target's list.
\<close>

theorem setitem_failure_keeps_attributes:
  "Element_setitem n self key item h = (Some err, h') \<Longrightarrow>
     (\<forall>r. e_attrs (elems h' r) = e_attrs (elems h r))
     \<and> (\<forall>d. prefix (dm_elements (dms h d)) (dm_elements (dms h' d)))"
proof -
  assume a: "Element_setitem n self key item h = (Some err, h')"
  have "frame h h'"
  proof (cases item)
    case (VElement e)
    with a import_frame(1) [of h n self e] show ?thesis
      by (auto simp: Element_setitem_def split: prod.splits option.splits)
  next
    case (VElementArray arr)
    with a import_frame(4) [of h n self arr] show ?thesis
      by (auto simp: Element_setitem_def split: prod.splits option.splits)
  qed (use a in \<open>auto simp: Element_setitem_def frame_refl\<close>)
  then show ?thesis by (simp add: frame_def)
qed

theorem setitem_failure_keeps_attributes_witness:
  "fst (Element_setitem 100 0 ''x'' (VElement 2) heap_partial) = Some IDCollisionError
   \<and> (\<forall>r. e_attrs (elems (snd (Element_setitem 100 0 ''x'' (VElement 2) heap_partial)) r)
            = e_attrs (elems heap_partial r))
   \<and> (\<forall>d. prefix (dm_elements (dms heap_partial d))
            (dm_elements (dms (snd (Element_setitem 100 0 ''x'' (VElement 2) heap_partial)) d)))"
proof -
  have "Element_setitem 100 0 ''x'' (VElement 2) heap_partial
          = (Some IDCollisionError, snd (Element_setitem 100 0 ''x'' (VElement 2) heap_partial))"
    using partial_import_eval by (simp add: prod_eq_iff)
  from setitem_failure_keeps_attributes [OF this] partial_import_eval show ?thesis
    by blast
qed

text \<open>
  C7 as stated fails: assigning \<^verbatim>\<open>parent\<close> (DataModel 1) to \<^verbatim>\<open>root["x"]\<close>
  (DataModel 0) raises IDCollisionError at \<^verbatim>\<open>parent\<close>'s child, after \<^verbatim>\<open>parent\<close> itself
  was appended to DataModel 0's element list.
\<close>

theorem setitem_failure_changes_elements:
  "fst (Element_setitem 100 0 ''x'' (VElement 2) heap_partial) = Some IDCollisionError
   \<and> dm_elements (dms (snd (Element_setitem 100 0 ''x'' (VElement 2) heap_partial)) 0)
       \<noteq> dm_elements (dms heap_partial 0)"
  using partial_import_eval by simp

subsection \<open>Import into a DataModel that holds a placeholder\<close>

text \<open>
  C6 at the failing input: DataModel 0 holds only a placeholder for id 12; assigning the
  element with id 12 of DataModel 1 to \<^verbatim>\<open>root["child"]\<close> raises IDCollisionError and
  changes nothing. The scan of \<^verbatim>\<open>import_element\<close> compares ids only and does not
  look at \<^verbatim>\<open>_is_placeholder\<close>.
\<close>

theorem import_collides_with_placeholder:
  "Element_setitem 100 0 ''child'' (VElement 2) heap_placeholder
     = (Some IDCollisionError, heap_placeholder)"
  by (simp add: Element_setitem_def heap_placeholder_def elem0_def dm0_def numeral_nat)

subsection \<open>Equality of elements\<close>

lemma Element_eq_Some:
  "Element_eq E a (Some b) = (e_attrs (E b) \<noteq> [] \<and> e_id (E a) = e_id (E b))"
  by (auto simp: Element_eq_def truthy_def)

text \<open>
  C10 at the failing input: \<^verbatim>\<open>root\<close> of the store above has no attribute, so
  \<^verbatim>\<open>root == root\<close> is false as a truth value although the ids are equal; in general
  \<^verbatim>\<open>a == b\<close> is true exactly when \<^verbatim>\<open>b\<close> has at least one attribute and the ids are
  equal. The hash is a function of the id.
\<close>

theorem Element_eq_false_on_empty_element:
  "e_id (elems heap_placeholder 0) = e_id (elems heap_placeholder 0)
   \<and> Element_eq (elems heap_placeholder) 0 (Some 0) = False
   \<and> Element_hash (elems heap_placeholder) 0 = int (e_id (elems heap_placeholder 0))"
  by (simp add: Element_eq_Some Element_hash_def heap_placeholder_def elem0_def)

end
